theory Spec2Isabelle
  imports Complex_Main
begin

section \<open>Python values, exceptions and string operations\<close>

text \<open>
  The calculator of \<^verbatim>\<open>src/vasp.py\<close> is a Python class. Its methods are embedded as
  HOL functions: an exception is a value of type \<open>error\<close> returned on the left of a sum,
  attributes of \<^verbatim>\<open>self\<close> are fields of a record that is passed in and returned, and
  the operating system (environment variables, files, the child process) is a parameter.
  Python floats are modelled by \<open>real\<close>: the code only negates, takes absolute values and
  compares them, which is exact on finite floats; NaN and infinities are outside the model.
\<close>

datatype error =
    CalculatorSetupError string
  | CalculationFailed string
  | ReadError string
  | RuntimeError string
  | FileNotFoundError string
  | KeyError string
  | UnboundLocalError string
  | ValueError
  | IndexError
  | TypeError
  | AttributeError
  | ParseError

text \<open>\<^verbatim>\<open>s.startswith(p)\<close> and \<^verbatim>\<open>sub in s\<close> on strings.\<close>

fun starts_with :: "string \<Rightarrow> string \<Rightarrow> bool" where
  "starts_with s p = (take (length p) s = p)"

fun py_in :: "string \<Rightarrow> string \<Rightarrow> bool" where
  "py_in sub [] = (sub = [])"
| "py_in sub (c # cs) = (starts_with (c # cs) sub \<or> py_in sub cs)"

text \<open>
  \<^verbatim>\<open>s.replace(old, new)\<close>: every non-overlapping occurrence of \<open>old\<close>, scanning from
  the left; with an empty \<open>old\<close> Python inserts \<open>new\<close> around every character.
\<close>

function str_replace :: "string \<Rightarrow> string \<Rightarrow> string \<Rightarrow> string" where
  "str_replace s old new =
     (if old = [] then new @ concat (map (\<lambda>c. c # new) s)
      else if s = [] then []
      else if starts_with s old then new @ str_replace (drop (length old) s) old new
      else hd s # str_replace (tl s) old new)"
  by pat_completeness auto
termination
  by (relation "measure (\<lambda>(s, old, new). length s)") auto

declare str_replace.simps [simp del]

text \<open>\<^verbatim>\<open>sep.join(xs)\<close>.\<close>

fun str_join :: "string \<Rightarrow> string list \<Rightarrow> string" where
  "str_join sep [] = []"
| "str_join sep [x] = x"
| "str_join sep (x # y # ys) = x @ sep @ str_join sep (y # ys)"

text \<open>
  Sequencing of computations that may raise: the first exception ends the computation.
\<close>

fun ebind :: "error + 'a \<Rightarrow> ('a \<Rightarrow> error + 'b) \<Rightarrow> error + 'b" where
  "ebind (Inl e) f = Inl e"
| "ebind (Inr x) f = f x"

text \<open>
  \<^verbatim>\<open>s.split()\<close> splits at runs of whitespace and drops empty tokens; \<^verbatim>\<open>s.split(sep)\<close>
  (used in the code with the one-character separators \<^verbatim>\<open>':'\<close>, \<^verbatim>\<open>'('\<close> and \<^verbatim>\<open>'-'\<close>)
  splits at every separator and keeps empty pieces, so its result is never empty.
\<close>

definition is_space :: "char \<Rightarrow> bool" where
  "is_space c = (c \<in> set [CHR '' '', CHR 0x09, CHR 0x0A, CHR 0x0B, CHR 0x0C, CHR 0x0D,
                            CHR 0x1C, CHR 0x1D, CHR 0x1E, CHR 0x1F])"

fun split_ws_from :: "string \<Rightarrow> string \<Rightarrow> string list" where
  "split_ws_from cur [] = (if cur = [] then [] else [cur])"
| "split_ws_from cur (c # cs) =
     (if is_space c then (if cur = [] then split_ws_from [] cs else cur # split_ws_from [] cs)
      else split_ws_from (cur @ [c]) cs)"

definition split_ws :: "string \<Rightarrow> string list" where
  "split_ws s = split_ws_from [] s"

fun split_chr_from :: "string \<Rightarrow> char \<Rightarrow> string \<Rightarrow> string list" where
  "split_chr_from cur sep [] = [cur]"
| "split_chr_from cur sep (c # cs) =
     (if c = sep then cur # split_chr_from [] sep cs else split_chr_from (cur @ [c]) sep cs)"

definition split_chr :: "string \<Rightarrow> char \<Rightarrow> string list" where
  "split_chr s sep = split_chr_from [] sep s"

definition str_strip :: "string \<Rightarrow> string" where
  "str_strip s = rev (dropWhile is_space (rev (dropWhile is_space s)))"

text \<open>\<^verbatim>\<open>s.lower()\<close> on ASCII letters.\<close>

definition lower_char :: "char \<Rightarrow> char" where
  "lower_char c =
     (case map_of (zip ''ABCDEFGHIJKLMNOPQRSTUVWXYZ'' ''abcdefghijklmnopqrstuvwxyz'') c of
        Some d \<Rightarrow> d
      | None \<Rightarrow> c)"

definition str_lower :: "string \<Rightarrow> string" where
  "str_lower s = map lower_char s"

text \<open>
  \<^verbatim>\<open>int(s)\<close> on a string: surrounding whitespace is stripped, then an optional sign and
  decimal digits, single underscores allowed between digits; anything else raises
  \<^verbatim>\<open>ValueError\<close>.
\<close>

definition is_digit :: "char \<Rightarrow> bool" where
  "is_digit c = (c \<in> set ''0123456789'')"

definition digit_val :: "char \<Rightarrow> nat" where
  "digit_val c = of_char c - 48"

fun parse_digits :: "nat \<Rightarrow> bool \<Rightarrow> string \<Rightarrow> nat option" where
  "parse_digits acc after_digit [] = (if after_digit then Some acc else None)"
| "parse_digits acc after_digit (c # cs) =
     (if is_digit c then parse_digits (10 * acc + digit_val c) True cs
      else if c = CHR ''_'' \<and> after_digit then parse_digits acc False cs
      else None)"

definition py_int :: "string \<Rightarrow> error + int" where
  "py_int s =
     (case str_strip s of
        [] \<Rightarrow> Inl ValueError
      | c # cs \<Rightarrow>
          (if c = CHR ''-'' then
             (case parse_digits 0 False cs of None \<Rightarrow> Inl ValueError | Some n \<Rightarrow> Inr (- int n))
           else if c = CHR ''+'' then
             (case parse_digits 0 False cs of None \<Rightarrow> Inl ValueError | Some n \<Rightarrow> Inr (int n))
           else
             (case parse_digits 0 False (c # cs) of
                None \<Rightarrow> Inl ValueError
              | Some n \<Rightarrow> Inr (int n))))"

text \<open>
  \<^verbatim>\<open>float(s)\<close> is a parameter \<open>pf\<close> of every function that parses numbers of the log:
  \<open>None\<close> stands for \<^verbatim>\<open>ValueError\<close>.
\<close>

definition py_float :: "(string \<Rightarrow> real option) \<Rightarrow> string \<Rightarrow> error + real" where
  "py_float pf s = (case pf s of None \<Rightarrow> Inl ValueError | Some x \<Rightarrow> Inr x)"

text \<open>
  Indexing: \<^verbatim>\<open>xs[i]\<close> counts a negative index from the end and raises
  \<^verbatim>\<open>IndexError\<close> out of range; \<^verbatim>\<open>a[idx]\<close> with a list of integers (numpy's integer
  array indexing along the first axis) collects \<^verbatim>\<open>a[i]\<close> for every \<open>i\<close> of \<open>idx\<close>.
\<close>

definition py_index :: "'a list \<Rightarrow> int \<Rightarrow> error + 'a" where
  "py_index xs i =
     (if 0 \<le> i \<and> i < int (length xs) then Inr (xs ! nat i)
      else if i < 0 \<and> - int (length xs) \<le> i then Inr (xs ! nat (int (length xs) + i))
      else Inl IndexError)"

fun np_take :: "'a list \<Rightarrow> int list \<Rightarrow> error + 'a list" where
  "np_take a [] = Inr []"
| "np_take a (i # idx) =
     ebind (py_index a i) (\<lambda>x. ebind (np_take a idx) (\<lambda>ys. Inr (x # ys)))"

text \<open>
  Values held in parameter dictionaries and in the result mapping. \<open>PAtoms r\<close> is a
  reference to an \<^verbatim>\<open>Atoms\<close> object of the object store, \<open>PStream n\<close> an open writable
  stream. Dictionaries are association lists in insertion order with distinct keys.
\<close>

datatype pyval =
    PNone
  | PBool bool
  | PInt int
  | PFloat real
  | PStr string
  | PList "pyval list"
  | PAtoms nat
  | PStream nat

type_synonym pydict = "(string \<times> pyval) list"

text \<open>
  Python's \<^verbatim>\<open>==\<close> on these values: numbers (and booleans) compare by value across
  types, lists element by element.
\<close>

fun num_of :: "pyval \<Rightarrow> real option" where
  "num_of (PBool b) = Some (if b then 1 else 0)"
| "num_of (PInt i) = Some (of_int i)"
| "num_of (PFloat x) = Some x"
| "num_of v = None"

fun py_eq :: "pyval \<Rightarrow> pyval \<Rightarrow> bool" where
  "py_eq (PList xs) (PList ys) = list_all2 py_eq xs ys"
| "py_eq (PStr s) (PStr t) = (s = t)"
| "py_eq PNone PNone = True"
| "py_eq (PAtoms r) (PAtoms q) = (r = q)"
| "py_eq (PStream r) (PStream q) = (r = q)"
| "py_eq v w = (case (num_of v, num_of w) of (Some x, Some y) \<Rightarrow> x = y | _ \<Rightarrow> False)"

text \<open>Truthiness, as \<^verbatim>\<open>if v:\<close> tests it.\<close>

fun truthy :: "pyval \<Rightarrow> bool" where
  "truthy PNone = False"
| "truthy (PBool b) = b"
| "truthy (PInt i) = (i \<noteq> 0)"
| "truthy (PFloat x) = (x \<noteq> 0)"
| "truthy (PStr s) = (s \<noteq> [])"
| "truthy (PList xs) = (xs \<noteq> [])"
| "truthy (PAtoms r) = True"
| "truthy (PStream n) = True"

text \<open>
  \<^verbatim>\<open>d[k]\<close> (raising \<^verbatim>\<open>KeyError\<close>), \<^verbatim>\<open>d[k] = v\<close>, \<^verbatim>\<open>d.pop(k)\<close> and
  \<^verbatim>\<open>d.update(e)\<close> on dictionaries.
\<close>

definition getitem :: "(string \<times> 'v) list \<Rightarrow> string \<Rightarrow> error + 'v" where
  "getitem d k = (case map_of d k of None \<Rightarrow> Inl (KeyError k) | Some v \<Rightarrow> Inr v)"

fun setitem :: "(string \<times> 'v) list \<Rightarrow> string \<Rightarrow> 'v \<Rightarrow> (string \<times> 'v) list" where
  "setitem [] k v = [(k, v)]"
| "setitem ((k', v') # d) k v = (if k' = k then (k, v) # d else (k', v') # setitem d k v)"

definition delitem :: "(string \<times> 'v) list \<Rightarrow> string \<Rightarrow> (string \<times> 'v) list" where
  "delitem d k = filter (\<lambda>kv. fst kv \<noteq> k) d"

definition dict_update :: "(string \<times> 'v) list \<Rightarrow> (string \<times> 'v) list \<Rightarrow> (string \<times> 'v) list" where
  "dict_update d e = foldl (\<lambda>acc kv. setitem acc (fst kv) (snd kv)) d e"

section \<open>Command resolution: \<^verbatim>\<open>Vasp.make_command\<close>\<close>

text \<open>
  \<^verbatim>\<open>env_commands = ('ASE_VASP_COMMAND', 'VASP_COMMAND', 'VASP_SCRIPT')\<close>. The
  \<^verbatim>\<open>for ... else\<close> loop of \<^verbatim>\<open>make_command\<close> is the recursion \<open>search_env\<close>: the first
  variable present in \<^verbatim>\<open>os.environ\<close> ends the loop, and the \<^verbatim>\<open>else\<close> branch (no
  \<^verbatim>\<open>break\<close>) raises. \<open>environ\<close> is \<^verbatim>\<open>os.environ\<close>, \<open>exe\<close> is \<^verbatim>\<open>sys.executable\<close>,
  \<open>prefix\<close> is \<^verbatim>\<open>self.prefix\<close>.
\<close>

definition env_commands :: "string list" where
  "env_commands = [''ASE_VASP_COMMAND'', ''VASP_COMMAND'', ''VASP_SCRIPT'']"

definition no_command_msg :: string where
  "no_command_msg =
     ''Please set either command in calculator or one of the following environment '' @
     ''variables (prioritized as follows): '' @ str_join '', '' env_commands"

fun search_env :: "(string \<rightharpoonup> string) \<Rightarrow> string \<Rightarrow> string \<Rightarrow> string list \<Rightarrow> error + string" where
  "search_env environ exe prefix [] = Inl (CalculatorSetupError no_command_msg)"
| "search_env environ exe prefix (env # envs) =
     (case environ env of
        Some v \<Rightarrow>
          (let cmd = str_replace v ''PREFIX'' prefix
           in Inr (if env = ''VASP_SCRIPT'' then str_join '' '' [exe, cmd] else cmd))
      | None \<Rightarrow> search_env environ exe prefix envs)"

text \<open>
  The argument \<open>command\<close> is \<open>None\<close> for Python's \<^verbatim>\<open>None\<close>. The test
  \<^verbatim>\<open>if command:\<close> is Python truthiness: \<^verbatim>\<open>None\<close> and the empty string both fail it.
\<close>

definition make_command ::
  "(string \<rightharpoonup> string) \<Rightarrow> string \<Rightarrow> string \<Rightarrow> string option \<Rightarrow> error + string" where
  "make_command environ exe prefix command =
     (case command of
        Some c \<Rightarrow> if c \<noteq> [] then Inr c else search_env environ exe prefix env_commands
      | None \<Rightarrow> search_env environ exe prefix env_commands)"

text \<open>
  The resolution as the specification words it: a given command is returned; otherwise the
  value of the first set variable is used as it is, \<^verbatim>\<open>VASP_SCRIPT\<close>'s behind the
  interpreter; otherwise the configuration error.
\<close>

fun first_set_value :: "(string \<rightharpoonup> string) \<Rightarrow> string \<Rightarrow> string list \<Rightarrow> error + string" where
  "first_set_value environ exe [] = Inl (CalculatorSetupError no_command_msg)"
| "first_set_value environ exe (env # envs) =
     (case environ env of
        Some v \<Rightarrow> Inr (if env = ''VASP_SCRIPT'' then exe @ '' '' @ v else v)
      | None \<Rightarrow> first_set_value environ exe envs)"

definition make_command_spec ::
  "(string \<rightharpoonup> string) \<Rightarrow> string \<Rightarrow> string option \<Rightarrow> error + string" where
  "make_command_spec environ exe command =
     (case command of
        Some c \<Rightarrow> Inr c
      | None \<Rightarrow> first_set_value environ exe env_commands)"

section \<open>The calculator's state\<close>

text \<open>
  An \<^verbatim>\<open>Atoms\<close> object holds the sites (positions and atomic numbers), the cell and the
  periodic-boundary flags. Objects live in an object store, a list addressed by position:
  the calculator keeps a reference in \<^verbatim>\<open>self._atoms\<close>, and a caller that mutates the
  object it passed in updates the store at that object's address.
\<close>

record atoms_obj =
  positions :: "real list list"
  numbers :: "int list"
  cell :: "real list list"
  pbc :: "bool list"

type_synonym store = "atoms_obj list"

text \<open>
  The calculator read back from \<^verbatim>\<open>vasprun.xml\<close> (a \<^verbatim>\<open>SinglePointDFTCalculator\<close>): its
  result dictionary and whether the run was spin-polarized.
\<close>

record xml_calc =
  xml_results :: pydict
  xml_spinpol :: bool

text \<open>
  The attributes of a \<^verbatim>\<open>Vasp\<close> object that the modelled methods read or write,
  together with the object store (\<open>objects\<close>), which methods that copy a structure extend. The
  attributes \<^verbatim>\<open>sort\<close>, \<^verbatim>\<open>resort\<close> and \<^verbatim>\<open>txt\<close> are the fields \<open>sort_list\<close>, \<open>resort_list\<close> and
  \<open>txt_attr\<close>. The field \<open>warned\<close> is not an attribute: it collects the messages passed to
  \<^verbatim>\<open>warnings.warn\<close>, in order.
\<close>

record vasp =
  objects :: store
  atoms :: "nat option"
  results :: pydict
  xml_calculator :: "xml_calc option"
  float_params :: pydict
  exp_params :: pydict
  string_params :: pydict
  int_params :: pydict
  input_params :: pydict
  bool_params :: pydict
  list_int_params :: pydict
  list_bool_params :: pydict
  list_float_params :: pydict
  dict_params :: pydict
  param_state :: "(string \<times> pydict) list"
  sort_list :: "int list"
  resort_list :: "int list"
  directory :: string
  prefix :: string
  command :: "string option"
  txt_attr :: pyval
  version :: "string option"
  spinpol :: bool
  converged :: "bool option"
  warned :: "string list"

text \<open>
  The files of the working directory that the modelled methods read, as lists of lines;
  \<open>None\<close> when the file does not exist.
\<close>

record workdir =
  sortfile :: "string list option"
  outcar :: "string list option"

definition load_file :: "string list option \<Rightarrow> string \<Rightarrow> error + string list" where
  "load_file file name = (case file of None \<Rightarrow> Inl (FileNotFoundError name) | Some ls \<Rightarrow> Inr ls)"

text \<open>
  The idiom \<^verbatim>\<open>if not lines: lines = self.load_file('OUTCAR')\<close>: a missing or empty
  argument is replaced by the file's lines.
\<close>

definition lines_or_outcar :: "workdir \<Rightarrow> string list option \<Rightarrow> error + string list" where
  "lines_or_outcar wd lines =
     (case lines of
        Some (l # ls) \<Rightarrow> Inr (l # ls)
      | _ \<Rightarrow> load_file (outcar wd) ''OUTCAR'')"

section \<open>The persisted permutation: \<^verbatim>\<open>Vasp.read_sort\<close>\<close>

text \<open>
  The loop over the lines of \<^verbatim>\<open>ase-sort.dat\<close>. The unpacking
  \<^verbatim>\<open>sort, resort = line.split()\<close> raises \<^verbatim>\<open>ValueError\<close> unless there are exactly two
  tokens; \<^verbatim>\<open>int\<close> raises \<^verbatim>\<open>ValueError\<close> on a token that is not an integer. The first
  number is appended before the second is parsed.
\<close>

fun read_sort_lines :: "string list \<Rightarrow> vasp \<Rightarrow> (error + unit) \<times> vasp" where
  "read_sort_lines [] s = (Inr (), s)"
| "read_sort_lines (line # ls) s =
     (case split_ws line of
        [a, b] \<Rightarrow>
          (case py_int a of
             Inl e \<Rightarrow> (Inl e, s)
           | Inr i \<Rightarrow>
               (let s1 = s\<lparr>sort_list := sort_list s @ [i]\<rparr>
                in case py_int b of
                     Inl e \<Rightarrow> (Inl e, s1)
                   | Inr j \<Rightarrow> read_sort_lines ls (s1\<lparr>resort_list := resort_list s1 @ [j]\<rparr>)))
      | _ \<Rightarrow> (Inl ValueError, s))"

text \<open>
  \<open>read_contcar\<close> is the outcome of \<^verbatim>\<open>read(self._indir('CONTCAR'))\<close> and \<open>initialize\<close> is
  \<^verbatim>\<open>GenerateVaspInput.initialize\<close>, both of the ASE library.
\<close>

definition read_sort ::
  "workdir \<Rightarrow> (error + atoms_obj) \<Rightarrow> (atoms_obj \<Rightarrow> vasp \<Rightarrow> (error + unit) \<times> vasp) \<Rightarrow> vasp
     \<Rightarrow> (error + unit) \<times> vasp" where
  "read_sort wd read_contcar initialize s =
     (case sortfile wd of
        Some ls \<Rightarrow> read_sort_lines ls (s\<lparr>sort_list := [], resort_list := []\<rparr>)
      | None \<Rightarrow>
          (case read_contcar of
             Inl e \<Rightarrow> (Inl e, s)
           | Inr a \<Rightarrow> initialize a s))"

text \<open>A line that holds exactly two integers, and the two.\<close>

definition two_ints :: "string \<Rightarrow> (int \<times> int) option" where
  "two_ints line =
     (case split_ws line of
        [a, b] \<Rightarrow>
          (case (py_int a, py_int b) of
             (Inr i, Inr j) \<Rightarrow> Some (i, j)
           | _ \<Rightarrow> None)
      | _ \<Rightarrow> None)"

section \<open>Convergence: \<^verbatim>\<open>Vasp.read_convergence\<close> and \<^verbatim>\<open>Vasp.read_relaxed\<close>\<close>

text \<open>
  The repair of the second number of an energy-change line: when it holds no
  \<^verbatim>\<open>e\<close> (in either case), the text after its last \<^verbatim>\<open>-\<close> is taken for the exponent.
\<close>

definition repair_exponent :: "string \<Rightarrow> string" where
  "repair_exponent b =
     (if \<not> py_in ''e'' (str_lower b) then
        (let bsplit = split_chr b CHR ''-'';
             bsplit' = bsplit[length bsplit - 1 := ''e'' @ last bsplit]
         in str_replace (str_join ''-'' bsplit') ''-e'' ''e-'')
      else b)"

text \<open>
  Python compares lists lexicographically: the first pair of unequal elements decides.
\<close>

fun py_list_less :: "real list \<Rightarrow> real list \<Rightarrow> bool" where
  "py_list_less [] [] = False"
| "py_list_less [] (y # ys) = True"
| "py_list_less (x # xs) [] = False"
| "py_list_less (x # xs) (y # ys) = (if x = y then py_list_less xs ys else x < y)"

text \<open>
  The body of the loop for a line that contains \<^verbatim>\<open>total energy-change\<close> and not
  \<^verbatim>\<open>MIXING\<close>; \<open>ediff\<close> is \<open>None\<close> while the variable is unbound.
\<close>

definition energy_change_check ::
  "(string \<Rightarrow> real option) \<Rightarrow> string \<Rightarrow> real option \<Rightarrow> error + bool" where
  "energy_change_check pf line ediff =
     ebind (py_index (split_chr line CHR '':'') 1) (\<lambda>s1.
     ebind (py_index (split_chr s1 CHR ''('') 0) (\<lambda>sa.
     ebind (py_float pf sa) (\<lambda>a.
     ebind (py_index (split_chr s1 CHR ''('') 1) (\<lambda>sb.
     ebind (py_float pf (repair_exponent (take (length sb - 2) sb))) (\<lambda>b.
       (case ediff of
          None \<Rightarrow> Inl (UnboundLocalError ''ediff'')
        | Some ed \<Rightarrow> Inr (py_list_less [\<bar>a\<bar>, \<bar>b\<bar>] [ed, ed])))))))"

definition read_ediff :: "(string \<Rightarrow> real option) \<Rightarrow> string \<Rightarrow> real option \<Rightarrow> error + real option" where
  "read_ediff pf line ediff =
     (if py_in ''EDIFF  '' line
      then ebind (py_index (split_ws line) 2) (\<lambda>t. ebind (py_float pf t) (\<lambda>x. Inr (Some x)))
      else Inr ediff)"

fun scan_convergence ::
  "(string \<Rightarrow> real option) \<Rightarrow> string list \<Rightarrow> real option \<Rightarrow> bool option \<Rightarrow> error + bool option" where
  "scan_convergence pf [] ediff conv = Inr conv"
| "scan_convergence pf (line # ls) ediff conv =
     ebind (read_ediff pf line ediff) (\<lambda>ediff'.
       if py_in ''total energy-change'' line then
         (if py_in ''MIXING'' line then scan_convergence pf ls ediff' conv
          else ebind (energy_change_check pf line ediff')
                 (\<lambda>c. scan_convergence pf ls ediff' (Some c)))
       else scan_convergence pf ls ediff' conv)"

definition read_relaxed :: "workdir \<Rightarrow> string list option \<Rightarrow> error + bool" where
  "read_relaxed wd lines =
     ebind (lines_or_outcar wd lines)
       (\<lambda>ls. Inr (list_ex (py_in ''reached required accuracy'') ls))"

text \<open>\<^verbatim>\<open>v in [i, j, ...]\<close> for a list of integer literals.\<close>

definition in_ints :: "pyval \<Rightarrow> int list \<Rightarrow> bool" where
  "in_ints v xs = list_ex (\<lambda>i. py_eq v (PInt i)) xs"

text \<open>
  Whether ionic relaxation was requested:
  \<^verbatim>\<open>self.int_params['ibrion'] in [1, 2, 3] and self.int_params['nsw'] not in [0]\<close>.
\<close>

definition ionic_requested :: "vasp \<Rightarrow> error + bool" where
  "ionic_requested s =
     ebind (getitem (int_params s) ''ibrion'') (\<lambda>ibrion.
       if in_ints ibrion [1, 2, 3]
       then ebind (getitem (int_params s) ''nsw'') (\<lambda>nsw. Inr (\<not> in_ints nsw [0]))
       else Inr False)"

definition read_convergence ::
  "(string \<Rightarrow> real option) \<Rightarrow> workdir \<Rightarrow> vasp \<Rightarrow> string list option \<Rightarrow> error + bool option" where
  "read_convergence pf wd s lines =
     ebind (lines_or_outcar wd lines) (\<lambda>ls.
     ebind (scan_convergence pf ls None None) (\<lambda>conv.
     ebind (ionic_requested s) (\<lambda>ionic.
       if ionic
       then ebind (read_relaxed wd None) (\<lambda>relaxed. Inr (if \<not> relaxed then Some False else Some True))
       else Inr conv)))"

text \<open>
  For the statement of the electronic check: the lines whose body the loop runs, and the
  value of \<^verbatim>\<open>ediff\<close> after a run of lines that raised nothing.
\<close>

definition energy_change_line :: "string \<Rightarrow> bool" where
  "energy_change_line line = (py_in ''total energy-change'' line \<and> \<not> py_in ''MIXING'' line)"

fun last_ediff :: "(string \<Rightarrow> real option) \<Rightarrow> string list \<Rightarrow> real option \<Rightarrow> real option" where
  "last_ediff pf [] ediff = ediff"
| "last_ediff pf (line # ls) ediff =
     last_ediff pf ls
       (if py_in ''EDIFF  '' line
        then (case py_index (split_ws line) 2 of Inl e \<Rightarrow> None | Inr t \<Rightarrow> pf t)
        else ediff)"

section \<open>Reading the log: magnetic moments, forces, dipole, bands, version\<close>

text \<open>
  \<^verbatim>\<open>len(self.atoms)\<close>: the site count of the stored structure; \<^verbatim>\<open>TypeError\<close> when
  \<^verbatim>\<open>self.atoms\<close> is \<^verbatim>\<open>None\<close>.
\<close>

definition len_atoms :: "vasp \<Rightarrow> error + nat" where
  "len_atoms s =
     (case atoms s of
        None \<Rightarrow> Inl TypeError
      | Some r \<Rightarrow> Inr (length (positions (objects s ! r))))"

text \<open>A list comprehension whose body may raise.\<close>

fun emap :: "('a \<Rightarrow> error + 'b) \<Rightarrow> 'a list \<Rightarrow> error + 'b list" where
  "emap f [] = Inr []"
| "emap f (x # xs) = ebind (f x) (\<lambda>y. ebind (emap f xs) (\<lambda>ys. Inr (y # ys)))"

text \<open>
  \<^verbatim>\<open>_read_magnetic_moment\<close>: the last line with \<^verbatim>\<open>number of electron\<close> and two
  blanks gives the total moment; the variable is unbound when there is none.
\<close>

fun scan_moment :: "(string \<Rightarrow> real option) \<Rightarrow> string list \<Rightarrow> real option \<Rightarrow> error + real option" where
  "scan_moment pf [] m = Inr m"
| "scan_moment pf (line # ls) m =
     (if py_in ''number of electron  '' line
      then ebind (py_index (split_ws line) (- 1)) (\<lambda>t.
           ebind (py_float pf t) (\<lambda>x. scan_moment pf ls (Some x)))
      else scan_moment pf ls m)"

definition read_magnetic_moment ::
  "(string \<Rightarrow> real option) \<Rightarrow> workdir \<Rightarrow> string list option \<Rightarrow> error + real" where
  "read_magnetic_moment pf wd lines =
     ebind (lines_or_outcar wd lines) (\<lambda>ls.
     ebind (scan_moment pf ls None) (\<lambda>m.
       case m of
         None \<Rightarrow> Inl (UnboundLocalError ''magnetic_moment'')
       | Some x \<Rightarrow> Inr x))"

text \<open>
  \<^verbatim>\<open>_read_magnetic_moments\<close>: the index of the last line with
  \<^verbatim>\<open>magnetization (x)\<close> (\<open>-1\<close> when there is none), the rows below it, and the
  permutation through \<^verbatim>\<open>self.resort\<close> at the return.
\<close>

fun last_index :: "(string \<Rightarrow> bool) \<Rightarrow> string list \<Rightarrow> int \<Rightarrow> int \<Rightarrow> int" where
  "last_index P [] n nidx = nidx"
| "last_index P (line # ls) n nidx = last_index P ls (n + 1) (if P line then n else nidx)"

fun fill_moments ::
  "(string \<Rightarrow> real option) \<Rightarrow> string list \<Rightarrow> int \<Rightarrow> nat list \<Rightarrow> real list \<Rightarrow> error + real list" where
  "fill_moments pf ls nidx [] mm = Inr mm"
| "fill_moments pf ls nidx (m # ms) mm =
     ebind (py_index ls (nidx + int m + 4)) (\<lambda>line.
     ebind (py_index (split_ws line) 4) (\<lambda>t.
     ebind (py_float pf t) (\<lambda>x. fill_moments pf ls nidx ms (mm[m := x]))))"

definition unsorted_moments ::
  "(string \<Rightarrow> real option) \<Rightarrow> string list \<Rightarrow> nat \<Rightarrow> error + real list" where
  "unsorted_moments pf ls n =
     (let nidx = last_index (py_in ''magnetization (x)'') ls 0 (- 1)
      in if nidx > - 1 then fill_moments pf ls nidx [0..<n] (replicate n 0)
         else Inr (replicate n 0))"

definition read_magnetic_moments ::
  "(string \<Rightarrow> real option) \<Rightarrow> workdir \<Rightarrow> vasp \<Rightarrow> string list option \<Rightarrow> error + real list" where
  "read_magnetic_moments pf wd s lines =
     ebind (lines_or_outcar wd lines) (\<lambda>ls.
     ebind (len_atoms s) (\<lambda>n.
     ebind (unsorted_moments pf ls n) (\<lambda>magnetic_moments.
       np_take magnetic_moments (resort_list s))))"

text \<open>
  \<^verbatim>\<open>v >= i\<close> for an integer literal: numbers compare by value, anything else raises
  \<^verbatim>\<open>TypeError\<close>.
\<close>

definition py_ge_int :: "pyval \<Rightarrow> int \<Rightarrow> error + bool" where
  "py_ge_int v i = (case num_of v of None \<Rightarrow> Inl TypeError | Some x \<Rightarrow> Inr (x \<ge> of_int i))"

text \<open>
  The test of \<^verbatim>\<open>read_mag\<close> for per-atom moments in the log:
  \<^verbatim>\<open>(p['lorbit'] is not None and p['lorbit'] >= 10) or (p['lorbit'] is None and q['rwigs'])\<close>,
  with Python's short-circuit evaluation.
\<close>

definition moments_written :: "vasp \<Rightarrow> error + bool" where
  "moments_written s =
     ebind (getitem (int_params s) ''lorbit'') (\<lambda>lorbit.
       if lorbit \<noteq> PNone then py_ge_int lorbit 10
       else ebind (getitem (list_float_params s) ''rwigs'') (\<lambda>rwigs. Inr (truthy rwigs)))"

definition lorbit_warning :: string where
  "lorbit_warning =
     ''Magnetic moment data not written in OUTCAR (LORBIT<10), setting magnetic_moments to zero.''
     @ [CHR 0x0A] @ ''Set LORBIT>=10 to get information on magnetic moments''"

definition raise_in :: "vasp \<Rightarrow> error \<Rightarrow> (error + 'a) \<times> vasp" where
  "raise_in s e = (Inl e, s)"

definition read_mag ::
  "(string \<Rightarrow> real option) \<Rightarrow> workdir \<Rightarrow> vasp \<Rightarrow> string list option
     \<Rightarrow> (error + real \<times> real list) \<times> vasp" where
  "read_mag pf wd s lines =
     (case lines_or_outcar wd lines of
        Inl e \<Rightarrow> raise_in s e
      | Inr ls \<Rightarrow>
          if spinpol s then
            (case read_magnetic_moment pf wd (Some ls) of
               Inl e \<Rightarrow> raise_in s e
             | Inr magnetic_moment \<Rightarrow>
                 (case moments_written s of
                    Inl e \<Rightarrow> raise_in s e
                  | Inr True \<Rightarrow>
                      (case read_magnetic_moments pf wd s (Some ls) of
                         Inl e \<Rightarrow> raise_in s e
                       | Inr magnetic_moments \<Rightarrow> (Inr (magnetic_moment, magnetic_moments), s))
                  | Inr False \<Rightarrow>
                      (let s' = s\<lparr>warned := warned s @ [lorbit_warning]\<rparr>
                       in case len_atoms s' of
                            Inl e \<Rightarrow> raise_in s' e
                          | Inr n \<Rightarrow> (Inr (magnetic_moment, replicate n 0), s'))))
          else
            (case len_atoms s of
               Inl e \<Rightarrow> raise_in s e
             | Inr n \<Rightarrow> (Inr (0, replicate n 0), s)))"

text \<open>
  \<^verbatim>\<open>read_forces\<close>. Below a line with \<^verbatim>\<open>TOTAL-FORCE\<close> at index \<open>n\<close>, the rows
  \<open>n + 2 + i\<close> hold the forces in their columns 3 to 5. With \<^verbatim>\<open>all\<close> every block is
  returned, each permuted; without, the last block, permuted at the return, and the
  variable \<^verbatim>\<open>forces\<close> is unbound when the log has no block.
\<close>

definition force_row :: "(string \<Rightarrow> real option) \<Rightarrow> string list \<Rightarrow> int \<Rightarrow> nat \<Rightarrow> error + real list" where
  "force_row pf lines n i =
     ebind (py_index lines (n + 2 + int i)) (\<lambda>line.
       emap (py_float pf) (take 3 (drop 3 (split_ws line))))"

definition force_block ::
  "(string \<Rightarrow> real option) \<Rightarrow> vasp \<Rightarrow> string list \<Rightarrow> int \<Rightarrow> error + real list list" where
  "force_block pf s lines n =
     ebind (len_atoms s) (\<lambda>natoms. emap (force_row pf lines n) [0..<natoms])"

datatype forces_result = Last_forces "real list list" | All_forces "real list list list"

fun scan_forces ::
  "(string \<Rightarrow> real option) \<Rightarrow> vasp \<Rightarrow> bool \<Rightarrow> string list \<Rightarrow> string list \<Rightarrow> int
     \<Rightarrow> real list list option \<Rightarrow> real list list list
     \<Rightarrow> error + (real list list option \<times> real list list list)" where
  "scan_forces pf s all lines [] n forces all_forces = Inr (forces, all_forces)"
| "scan_forces pf s all lines (line # rest) n forces all_forces =
     (if py_in ''TOTAL-FORCE'' line then
        ebind (force_block pf s lines n) (\<lambda>fs.
          if all
          then ebind (np_take fs (resort_list s))
                 (\<lambda>p. scan_forces pf s all lines rest (n + 1) (Some fs) (all_forces @ [p]))
          else scan_forces pf s all lines rest (n + 1) (Some fs) all_forces)
      else scan_forces pf s all lines rest (n + 1) forces all_forces)"

definition read_forces ::
  "(string \<Rightarrow> real option) \<Rightarrow> workdir \<Rightarrow> vasp \<Rightarrow> bool \<Rightarrow> string list option
     \<Rightarrow> error + forces_result" where
  "read_forces pf wd s all lines =
     ebind (lines_or_outcar wd lines) (\<lambda>ls.
     ebind (scan_forces pf s all ls ls 0 None []) (\<lambda>(forces, all_forces).
       if all then Inr (All_forces all_forces)
       else (case forces of
               None \<Rightarrow> Inl (UnboundLocalError ''forces'')
             | Some fs \<Rightarrow> ebind (np_take fs (resort_list s)) (\<lambda>p. Inr (Last_forces p)))))"

text \<open>
  \<^verbatim>\<open>read_dipole\<close> (the default is \<^verbatim>\<open>np.zeros([1, 3])\<close>), \<^verbatim>\<open>strip_warnings\<close>,
  \<^verbatim>\<open>read_nbands\<close> and \<^verbatim>\<open>read_version\<close>.
\<close>

fun scan_dipole :: "(string \<Rightarrow> real option) \<Rightarrow> string list \<Rightarrow> pyval \<Rightarrow> error + pyval" where
  "scan_dipole pf [] d = Inr d"
| "scan_dipole pf (line # ls) d =
     (if py_in ''dipolmoment'' line
      then ebind (emap (py_float pf) (take 3 (drop 1 (split_ws line))))
             (\<lambda>xs. scan_dipole pf ls (PList (map PFloat xs)))
      else scan_dipole pf ls d)"

definition read_dipole :: "(string \<Rightarrow> real option) \<Rightarrow> workdir \<Rightarrow> string list option \<Rightarrow> error + pyval" where
  "read_dipole pf wd lines =
     ebind (lines_or_outcar wd lines)
       (\<lambda>ls. scan_dipole pf ls (PList [PList [PFloat 0, PFloat 0, PFloat 0]]))"

definition strip_warnings :: "string \<Rightarrow> error + string" where
  "strip_warnings line =
     ebind (py_index line 0) (\<lambda>c. Inr (if c = CHR ''|'' then [] else line))"

fun scan_nbands :: "string list \<Rightarrow> error + pyval" where
  "scan_nbands [] = Inr PNone"
| "scan_nbands (line # ls) =
     ebind (strip_warnings line) (\<lambda>line'.
       if py_in ''NBANDS'' line'
       then ebind (py_index (split_ws line') (- 1)) (\<lambda>t. ebind (py_int t) (\<lambda>i. Inr (PInt i)))
       else scan_nbands ls)"

definition read_nbands :: "workdir \<Rightarrow> string list option \<Rightarrow> error + pyval" where
  "read_nbands wd lines = ebind (lines_or_outcar wd lines) scan_nbands"

fun scan_version :: "string list \<Rightarrow> error + string option" where
  "scan_version [] = Inr None"
| "scan_version (line # ls) =
     (if py_in '' vasp.'' line
      then ebind (py_index (split_ws (drop (length '' vasp.'') line)) 0) (\<lambda>t. Inr (Some t))
      else scan_version ls)"

definition read_version :: "workdir \<Rightarrow> error + string option" where
  "read_version wd = (case outcar wd of None \<Rightarrow> Inr None | Some ls \<Rightarrow> scan_version ls)"

section \<open>Collaborators outside the module\<close>

text \<open>
  \<^verbatim>\<open>Vasp\<close> inherits from \<^verbatim>\<open>Calculator\<close> and \<^verbatim>\<open>GenerateVaspInput\<close> and calls
  \<^verbatim>\<open>ase.io.read\<close> and \<^verbatim>\<open>subprocess.call\<close>. None of them is part of the module; they
  are the fields of a record that every method calling them takes as a parameter. A
  method of a base class takes the state and returns an outcome and the new state.
\<close>

datatype out_stream = DEVNULL | Inherit | To_file string | To_stream nat

record ase =
  base_check_state :: "atoms_obj option \<Rightarrow> atoms_obj \<Rightarrow> real \<Rightarrow> string list"
  label_setter :: "pyval \<Rightarrow> vasp \<Rightarrow> (error + unit) \<times> vasp"
  calculator_set :: "pydict \<Rightarrow> vasp \<Rightarrow> (error + pydict) \<times> vasp"
  generate_set :: "pydict \<Rightarrow> vasp \<Rightarrow> (error + unit) \<times> vasp"
  generate_initialize :: "atoms_obj \<Rightarrow> vasp \<Rightarrow> (error + unit) \<times> vasp"
  generate_write_input :: "atoms_obj \<Rightarrow> vasp \<Rightarrow> (error + unit) \<times> vasp"
  old_getters :: "vasp \<Rightarrow> (error + unit) \<times> vasp"
  read_structure :: "string \<Rightarrow> error + atoms_obj"
  read_vasprun :: "error + xml_calc option"
  cell_rank :: "real list list \<Rightarrow> nat"
  run_process :: "string \<Rightarrow> out_stream \<Rightarrow> string \<Rightarrow> error + int"
  py_str :: "pyval \<Rightarrow> string"
  float_of :: "string \<Rightarrow> real option"

text \<open>Sequencing of methods: an exception ends the sequence and keeps the state reached.\<close>

fun sbind ::
  "(error + 'a) \<times> vasp \<Rightarrow> ('a \<Rightarrow> vasp \<Rightarrow> (error + 'b) \<times> vasp) \<Rightarrow> (error + 'b) \<times> vasp" where
  "sbind (Inl e, s) f = (Inl e, s)"
| "sbind (Inr x, s) f = f x s"

definition lift :: "vasp \<Rightarrow> error + 'a \<Rightarrow> (error + 'a) \<times> vasp" where
  "lift s m = (m, s)"

text \<open>\<^verbatim>\<open>self._indir(filename)\<close>, for a directory written without a trailing slash.\<close>

definition indir :: "vasp \<Rightarrow> string \<Rightarrow> string" where
  "indir s filename = (if directory s = ''.'' then filename else directory s @ ''/'' @ filename)"

section \<open>Result invalidation and change detection\<close>

definition clear_results :: "vasp \<Rightarrow> vasp" where
  "clear_results s = s\<lparr>results := [], xml_calculator := None\<rparr>"

text \<open>
  \<^verbatim>\<open>_store_param_state\<close> copies the ten parameter dictionaries, in this order, into
  \<^verbatim>\<open>self.param_state\<close>; \<^verbatim>\<open>getattr(self, param_string)\<close> reads one of them back by
  its name.
\<close>

definition current_params :: "vasp \<Rightarrow> (string \<times> pydict) list" where
  "current_params s =
     [(''float_params'', float_params s),
      (''exp_params'', exp_params s),
      (''string_params'', string_params s),
      (''int_params'', int_params s),
      (''input_params'', input_params s),
      (''bool_params'', bool_params s),
      (''list_int_params'', list_int_params s),
      (''list_bool_params'', list_bool_params s),
      (''list_float_params'', list_float_params s),
      (''dict_params'', dict_params s)]"

definition store_param_state :: "vasp \<Rightarrow> vasp" where
  "store_param_state s = s\<lparr>param_state := current_params s\<rparr>"

definition getattr_params :: "vasp \<Rightarrow> string \<Rightarrow> error + pydict" where
  "getattr_params s name =
     (case map_of (current_params s) name of None \<Rightarrow> Inl AttributeError | Some d \<Rightarrow> Inr d)"

text \<open>
  The helper \<^verbatim>\<open>compare_dict\<close> of \<^verbatim>\<open>check_state\<close>: the key sets must have an empty
  symmetric difference, then every value of \<open>d1\<close> must not differ from that of \<open>d2\<close>.
\<close>

definition compare_dict :: "pydict \<Rightarrow> pydict \<Rightarrow> bool" where
  "compare_dict d1 d2 =
     (if \<not> (list_all (\<lambda>k. k \<in> set (map fst d2)) (map fst d1)
             \<and> list_all (\<lambda>k. k \<in> set (map fst d1)) (map fst d2))
      then False
      else list_all (\<lambda>kv. case map_of d2 (fst kv) of
                             None \<Rightarrow> False
                           | Some w \<Rightarrow> py_eq (snd kv) w) d1)"

fun param_changes :: "vasp \<Rightarrow> (string \<times> pydict) list \<Rightarrow> error + string list" where
  "param_changes s [] = Inr []"
| "param_changes s (entry # rest) =
     ebind (getattr_params s (fst entry)) (\<lambda>param_dict.
     ebind (param_changes s rest) (\<lambda>cs.
       Inr (if \<not> compare_dict param_dict (snd entry) then fst entry # cs else cs)))"

text \<open>
  \<^verbatim>\<open>check_state\<close>: the changes that \<^verbatim>\<open>Calculator.check_state\<close> reports for the stored
  and the passed structure, followed by the names of the parameter dictionaries that
  differ from their snapshot. The method assigns nothing: the state comes back as it was.
\<close>

definition default_tol :: real where
  "default_tol = 1 / 10 ^ 15"

definition check_state :: "ase \<Rightarrow> vasp \<Rightarrow> nat \<Rightarrow> real \<Rightarrow> (error + string list) \<times> vasp" where
  "check_state x s r tol =
     (let system_changes =
            base_check_state x (map_option (\<lambda>q. objects s ! q) (atoms s)) (objects s ! r) tol
      in (ebind (param_changes s (param_state s)) (\<lambda>cs. Inr (system_changes @ cs)), s))"

text \<open>
  The setter of the property \<^verbatim>\<open>atoms\<close>. \<^verbatim>\<open>atoms.copy()\<close> allocates a new object with
  the same contents, and the calculator keeps the reference to the new object.
\<close>

definition copy_atoms :: "vasp \<Rightarrow> nat \<Rightarrow> nat \<times> vasp" where
  "copy_atoms s r = (length (objects s), s\<lparr>objects := objects s @ [objects s ! r]\<rparr>)"

definition set_atoms :: "ase \<Rightarrow> vasp \<Rightarrow> nat option \<Rightarrow> (error + unit) \<times> vasp" where
  "set_atoms x s a =
     (case a of
        None \<Rightarrow> (Inr (), clear_results (s\<lparr>atoms := None\<rparr>))
      | Some r \<Rightarrow>
          sbind (check_state x s r default_tol) (\<lambda>changes s1.
            let s2 = (if changes \<noteq> [] then clear_results s1 else s1);
                (q, s3) = copy_atoms s2 r
            in (Inr (), s3\<lparr>atoms := Some q\<rparr>)))"

section \<open>Setting keywords: \<^verbatim>\<open>Vasp.set\<close>\<close>

text \<open>
  The keyword \<^verbatim>\<open>atoms\<close> holds \<^verbatim>\<open>None\<close> or a reference to an \<^verbatim>\<open>Atoms\<close> object; the
  keyword \<^verbatim>\<open>command\<close> holds \<^verbatim>\<open>None\<close> or a string.
\<close>

definition set_atoms_value :: "ase \<Rightarrow> vasp \<Rightarrow> pyval \<Rightarrow> (error + unit) \<times> vasp" where
  "set_atoms_value x s v =
     (case v of
        PNone \<Rightarrow> set_atoms x s None
      | PAtoms r \<Rightarrow> set_atoms x s (Some r)
      | _ \<Rightarrow> (Inl AttributeError, s))"

definition as_command :: "pyval \<Rightarrow> string option" where
  "as_command v = (case v of PStr c \<Rightarrow> Some c | _ \<Rightarrow> None)"

text \<open>
  \<^verbatim>\<open>set(**kwargs)\<close>. Each of the five calculator keywords is popped from \<open>kwargs\<close>; what
  remains goes to \<^verbatim>\<open>Calculator.set\<close> and, when anything remains, to
  \<^verbatim>\<open>GenerateVaspInput.set\<close>, after which \<^verbatim>\<open>self.results.clear()\<close> runs.
\<close>

definition vasp_set :: "ase \<Rightarrow> vasp \<Rightarrow> pydict \<Rightarrow> (error + unit) \<times> vasp" where
  "vasp_set x s kwargs =
     sbind (case map_of kwargs ''label'' of
              None \<Rightarrow> (Inr (), s)
            | Some v \<Rightarrow> label_setter x v s) (\<lambda>_ s1.
     let k1 = delitem kwargs ''label'';
         s2 = (case map_of k1 ''directory'' of
                 None \<Rightarrow> s1
               | Some v \<Rightarrow> s1\<lparr>directory := py_str x v\<rparr>);
         k2 = delitem k1 ''directory'';
         s3 = (case map_of k2 ''txt'' of
                 None \<Rightarrow> s2
               | Some v \<Rightarrow> s2\<lparr>txt_attr := v\<rparr>);
         k3 = delitem k2 ''txt''
     in
     sbind (case map_of k3 ''atoms'' of
              None \<Rightarrow> (Inr (), s3)
            | Some v \<Rightarrow> set_atoms_value x s3 v) (\<lambda>_ s4.
     let k4 = delitem k3 ''atoms'';
         s5 = (case map_of k4 ''command'' of
                 None \<Rightarrow> s4
               | Some v \<Rightarrow> s4\<lparr>command := as_command v\<rparr>);
         k5 = delitem k4 ''command''
     in
     sbind (calculator_set x k5 s5) (\<lambda>changed_parameters s6.
     let s7 = (if changed_parameters \<noteq> [] then clear_results s6 else s6)
     in if k5 \<noteq> []
        then sbind (generate_set x k5 s7) (\<lambda>_ s8. (Inr (), s8\<lparr>results := []\<rparr>))
        else (Inr (), s7))))"

section \<open>Reading results: \<^verbatim>\<open>Vasp.read_results\<close>\<close>

text \<open>
  \<^verbatim>\<open>_read_xml\<close>: a parse error of \<^verbatim>\<open>vasprun.xml\<close> and a structure without a
  calculator both become \<^verbatim>\<open>ReadError\<close>; otherwise the calculator is stored and returned.
\<close>

definition incomplete_msg :: "vasp \<Rightarrow> string" where
  "incomplete_msg s =
     ''The file \"'' @ indir s ''vasprun.xml'' @
     ''\" is incomplete, and no DFT data was available. '' @
     ''This is likely due to an incomplete calculation.''"

definition read_xml :: "ase \<Rightarrow> vasp \<Rightarrow> (error + xml_calc) \<times> vasp" where
  "read_xml x s =
     (case read_vasprun x of
        Inl e \<Rightarrow> (Inl (if e = ParseError then ReadError (incomplete_msg s) else e), s)
      | Inr None \<Rightarrow> (Inl (ReadError (incomplete_msg s)), s)
      | Inr (Some calc) \<Rightarrow> (Inr calc, s\<lparr>xml_calculator := Some calc\<rparr>))"

text \<open>\<^verbatim>\<open>a[idx]\<close> on a value: only an array (a list of rows) can be indexed by a list.\<close>

definition np_index :: "pyval \<Rightarrow> int list \<Rightarrow> error + pyval" where
  "np_index v idx =
     (case v of
        PList rows \<Rightarrow> ebind (np_take rows idx) (\<lambda>taken. Inr (PList taken))
      | _ \<Rightarrow> Inl TypeError)"

text \<open>
  \<^verbatim>\<open>_set_old_keywords\<close> reads the spin polarization from the stored calculator of
  \<^verbatim>\<open>vasprun.xml\<close> and then only calls getters of \<^verbatim>\<open>Calculator\<close>, whose values it
  keeps in attributes that no modelled method reads.
\<close>

definition set_old_keywords :: "ase \<Rightarrow> vasp \<Rightarrow> (error + unit) \<times> vasp" where
  "set_old_keywords x s =
     (case xml_calculator s of
        None \<Rightarrow>
          (Inl (RuntimeError
             ''vasprun.xml data has not yet been loaded. Run read_results() first.''), s)
      | Some calc \<Rightarrow> old_getters x (s\<lparr>spinpol := xml_spinpol calc\<rparr>))"

text \<open>
  \<^verbatim>\<open>read_results\<close>, in the three steps of the source. First (\<open>read_results_xml\<close>) the
  forces of \<^verbatim>\<open>vasprun.xml\<close> are replaced, in the result dictionary of the calculator
  read from the file, by their permutation through \<^verbatim>\<open>self.resort\<close>, and that
  dictionary updates \<^verbatim>\<open>self.results\<close>. Then (\<open>read_results_outcar\<close>) the values read
  from \<^verbatim>\<open>OUTCAR\<close> are added, with \<^verbatim>\<open>stress\<close> set to \<^verbatim>\<open>None\<close> when it is missing.
  Last come \<^verbatim>\<open>_set_old_keywords\<close> and \<^verbatim>\<open>_store_param_state\<close>.
\<close>

definition read_results_xml :: "ase \<Rightarrow> vasp \<Rightarrow> (error + unit) \<times> vasp" where
  "read_results_xml x s =
     sbind (read_xml x s) (\<lambda>calc_xml s1.
     sbind (lift s1 (ebind (getitem (xml_results calc_xml) ''forces'')
                       (\<lambda>f. np_index f (resort_list s1)))) (\<lambda>forces s1.
     let xml_res = setitem (xml_results calc_xml) ''forces'' forces;
         s2 = s1\<lparr>xml_calculator := Some (calc_xml\<lparr>xml_results := xml_res\<rparr>)\<rparr>
     in (Inr (), s2\<lparr>results := dict_update (results s2) xml_res\<rparr>)))"

definition read_results_outcar ::
  "ase \<Rightarrow> workdir \<Rightarrow> string list \<Rightarrow> vasp \<Rightarrow> (error + unit) \<times> vasp" where
  "read_results_outcar x wd outcar_lines s =
     sbind (lift s (read_convergence (float_of x) wd s (Some outcar_lines))) (\<lambda>conv s3.
     let s4 = s3\<lparr>converged := conv\<rparr> in
     sbind (lift s4 (read_version wd)) (\<lambda>vers s4.
     let s5 = s4\<lparr>version := vers\<rparr> in
     sbind (read_mag (float_of x) wd s5 (Some outcar_lines)) (\<lambda>mag s6.
     sbind (lift s6 (read_dipole (float_of x) wd (Some outcar_lines))) (\<lambda>dipole s6.
     sbind (lift s6 (read_nbands wd (Some outcar_lines))) (\<lambda>nbands s6.
     let s7 = s6\<lparr>results := dict_update (results s6)
                   [(''magmom'', PFloat (fst mag)),
                    (''magmoms'', PList (map PFloat (snd mag))),
                    (''dipole'', dipole),
                    (''nbands'', nbands)]\<rparr>
     in (Inr (), if map_of (results s7) ''stress'' = None
                 then s7\<lparr>results := dict_update (results s7) [(''stress'', PNone)]\<rparr>
                 else s7))))))"

definition read_results :: "ase \<Rightarrow> workdir \<Rightarrow> vasp \<Rightarrow> (error + unit) \<times> vasp" where
  "read_results x wd s =
     sbind (lift s (load_file (outcar wd) ''OUTCAR'')) (\<lambda>outcar_lines s0.
     sbind (read_results_xml x s0) (\<lambda>_ s3.
     sbind (read_results_outcar x wd outcar_lines s3) (\<lambda>_ s8.
     sbind (set_old_keywords x s8) (\<lambda>_ s9. (Inr (), store_param_state s9)))))"

section \<open>Running the program: \<^verbatim>\<open>Vasp.calculate\<close>\<close>

text \<open>
  \<^verbatim>\<open>check_atoms\<close> runs \<^verbatim>\<open>check_atoms_type\<close>, \<^verbatim>\<open>check_cell\<close> and \<^verbatim>\<open>check_pbc\<close> in
  this order. The source file ends inside the message of \<^verbatim>\<open>check_atoms_type\<close>; its
  known part stands for the message.
\<close>

definition check_atoms :: "ase \<Rightarrow> vasp \<Rightarrow> nat option \<Rightarrow> error + unit" where
  "check_atoms x s a =
     (case a of
        None \<Rightarrow> Inl (CalculatorSetupError ''Expected an Atoms object, '')
      | Some r \<Rightarrow>
          if cell_rank x (cell (objects s ! r)) < 3
          then Inl (CalculatorSetupError
                 (''The lattice vectors are zero! This is the default value - '' @
                  ''please specify a unit cell.''))
          else if \<not> list_all (\<lambda>b. b) (pbc (objects s ! r))
          then Inl (CalculatorSetupError
                 (''Vasp cannot handle non-periodic boundaries. '' @
                  ''Please enable all PBC, e.g. atoms.pbc=True''))
          else Inr ())"

text \<open>
  \<^verbatim>\<open>write_input\<close> hands the structure to \<^verbatim>\<open>initialize\<close> and to
  \<^verbatim>\<open>GenerateVaspInput.write_input\<close>; its other arguments are not used.
\<close>

definition write_input :: "ase \<Rightarrow> vasp \<Rightarrow> (error + unit) \<times> vasp" where
  "write_input x s =
     (case atoms s of
        None \<Rightarrow> (Inl AttributeError, s)
      | Some r \<Rightarrow>
          sbind (generate_initialize x (objects s ! r) s)
            (\<lambda>_ s1. generate_write_input x (objects s ! r) s1))"

text \<open>The destination of the program's output that \<^verbatim>\<open>_txt_outstream\<close> yields.\<close>

definition txt_outstream :: "ase \<Rightarrow> vasp \<Rightarrow> error + out_stream" where
  "txt_outstream x s =
     (case txt_attr s of
        PNone \<Rightarrow> Inr DEVNULL
      | PStr t \<Rightarrow> Inr (if t = ''-'' then Inherit else To_file (indir s t))
      | PStream n \<Rightarrow> Inr (To_stream n)
      | v \<Rightarrow> Inl (RuntimeError
                 (''txt should either be a stringor an I/O stream, got '' @ py_str x v)))"

text \<open>\<^verbatim>\<open>v > i\<close> for an integer literal, and the decimal text of an integer (\<^verbatim>\<open>{:d}\<close>).\<close>

definition py_gt_int :: "pyval \<Rightarrow> int \<Rightarrow> error + bool" where
  "py_gt_int v i = (case num_of v of None \<Rightarrow> Inl TypeError | Some y \<Rightarrow> Inr (y > of_int i))"

function show_nat :: "nat \<Rightarrow> string" where
  "show_nat n =
     (if n < 10 then [''0123456789'' ! n]
      else show_nat (n div 10) @ [''0123456789'' ! (n mod 10)])"
  by pat_completeness auto
termination
  by (relation "measure (\<lambda>n. n)") auto

declare show_nat.simps [simp del]

definition show_int :: "int \<Rightarrow> string" where
  "show_int i = (if i < 0 then ''-'' @ show_nat (nat (- i)) else show_nat (nat i))"

text \<open>
  \<^verbatim>\<open>update_atoms\<close>: after a relaxation (\<^verbatim>\<open>ibrion > -1\<close> and \<^verbatim>\<open>nsw > 0\<close>) the
  positions and the cell of the passed object are overwritten from \<^verbatim>\<open>CONTCAR\<close>; then
  the object is assigned to \<^verbatim>\<open>self.atoms\<close>.
\<close>

definition relaxation_ran :: "vasp \<Rightarrow> error + bool" where
  "relaxation_ran s =
     ebind (getitem (int_params s) ''ibrion'') (\<lambda>ibrion.
       if ibrion = PNone then Inr False
       else ebind (getitem (int_params s) ''nsw'') (\<lambda>nsw.
         if nsw = PNone then Inr False
         else ebind (py_gt_int ibrion (- 1)) (\<lambda>g.
           if g then py_gt_int nsw 0 else Inr False)))"

definition update_atoms :: "ase \<Rightarrow> vasp \<Rightarrow> nat option \<Rightarrow> (error + unit) \<times> vasp" where
  "update_atoms x s a =
     sbind (lift s (relaxation_ran s)) (\<lambda>ran s.
     sbind (if ran then
              (case read_structure x (indir s ''CONTCAR'') of
                 Inl e \<Rightarrow> (Inl e, s)
               | Inr atoms_sorted \<Rightarrow>
                   (case np_take (positions atoms_sorted) (resort_list s) of
                      Inl e \<Rightarrow> (Inl e, s)
                    | Inr pos \<Rightarrow>
                        (case a of
                           None \<Rightarrow> (Inl AttributeError, s)
                         | Some r \<Rightarrow>
                             if length pos \<noteq> length (positions (objects s ! r))
                             then (Inl ValueError, s)
                             else (Inr (), s\<lparr>objects := (objects s)
                                     [r := (objects s ! r)\<lparr>positions := pos,
                                                           cell := cell atoms_sorted\<rparr>]\<rparr>))))
            else (Inr (), s)) (\<lambda>_ s1. set_atoms x s1 a))"

text \<open>
  \<^verbatim>\<open>calculate\<close>. \<open>environ\<close> and \<open>exe\<close> are \<^verbatim>\<open>os.environ\<close> and \<^verbatim>\<open>sys.executable\<close>;
  \<^verbatim>\<open>self.name\<close> is \<^verbatim>\<open>'vasp'\<close>.
\<close>

definition failed_msg :: "vasp \<Rightarrow> int \<Rightarrow> string" where
  "failed_msg s errorcode =
     ''vasp'' @ '' in '' @ directory s @ '' returned an error: '' @ show_int errorcode"

definition calculate ::
  "ase \<Rightarrow> (string \<rightharpoonup> string) \<Rightarrow> string \<Rightarrow> workdir \<Rightarrow> vasp \<Rightarrow> nat option \<Rightarrow> (error + unit) \<times> vasp" where
  "calculate x environ exe wd s a =
     sbind (lift s (check_atoms x s a)) (\<lambda>_ s0.
     sbind (case a of
              None \<Rightarrow> (Inr (), clear_results s0)
            | Some r \<Rightarrow>
                (let (q, s1) = copy_atoms (clear_results s0) r in set_atoms x s1 (Some q)))
       (\<lambda>_ s2.
     sbind (lift s2 (make_command environ exe (prefix s2) (command s2))) (\<lambda>cmd s2.
     sbind (write_input x s2) (\<lambda>_ s3.
     sbind (lift s3 (txt_outstream x s3)) (\<lambda>out s3.
     sbind (lift s3 (run_process x cmd out (directory s3))) (\<lambda>errorcode s3.
       if errorcode \<noteq> 0
       then (Inl (CalculationFailed (failed_msg s3 errorcode)), s3)
       else sbind (update_atoms x s3 a) (\<lambda>_ s4. read_results x wd s4)))))))"

section \<open>Concrete inputs\<close>

text \<open>
  A calculator state, the values of \<^verbatim>\<open>float\<close> on the number strings of the logs below,
  and two logs: one whose last energy change is above \<^verbatim>\<open>EDIFF\<close> although the
  relaxation marker is present, one whose second number has the exponent without
  \<^verbatim>\<open>E\<close>.
\<close>

definition example_calc :: vasp where
  "example_calc =
     \<lparr>objects = [], atoms = None, results = [], xml_calculator = None,
      float_params = [(''encut'', PFloat 400)], exp_params = [(''ediff'', PNone)],
      string_params = [(''prec'', PStr ''Accurate'')],
      int_params = [(''ibrion'', PInt 2), (''nsw'', PInt 10), (''lorbit'', PNone)],
      input_params = [(''xc'', PStr ''PBE'')], bool_params = [(''lwave'', PBool False)],
      list_int_params = [], list_bool_params = [],
      list_float_params = [(''rwigs'', PNone)], dict_params = [],
      param_state = [], sort_list = [], resort_list = [],
      directory = ''.'', prefix = ''vasp'', command = None, txt_attr = PStr ''vasp.out'',
      version = None, spinpol = False, converged = None, warned = []\<rparr>"

definition example_float :: "string \<Rightarrow> real option" where
  "example_float s =
     map_of [(''0.1E-03'', 1 / 10 ^ 4),
             ('' 0.5E+00  '', 1 / 2),
             ('' 0.3E+00'', 3 / 10),
             (''-0.2141803E-08  '', - 2141803 / 10 ^ 15),
             ('' 0.2737684e-111'', 2737684 / 10 ^ 118),
             (''2.0'', 2), (''0.0'', 0), (''0.1'', 1 / 10), (''-0.1'', - 1 / 10),
             (''1.53'', 153 / 100), (''0.103'', 103 / 1000)] s"

definition outcar_unconverged :: "string list" where
  "outcar_unconverged =
     [''   EDIFF  = 0.1E-03   stopping-criterion for ELM'' @ [CHR 0x0A],
      ''  total energy-change (2. order) : 0.5E+00  ( 0.3E+00)'' @ [CHR 0x0A],
      '' reached required accuracy - stopping structural energy minimisation'' @ [CHR 0x0A]]"

definition outcar_repaired :: "string list" where
  "outcar_repaired =
     [''   EDIFF  = 0.1E-03   stopping-criterion for ELM'' @ [CHR 0x0A],
      ''  total energy-change (2. order) :-0.2141803E-08  ( 0.2737684-111)'' @ [CHR 0x0A],
      '' writing wavefunctions'' @ [CHR 0x0A]]"

text \<open>
  A structure of two sites, a spin-polarized calculator that holds it (with the
  permutation that swaps the two sites), and a log with the total moment, one block of
  forces and one block of per-atom moments, both in the program's order.
\<close>

definition example_atoms :: atoms_obj where
  "example_atoms =
     \<lparr>positions = [[0, 0, 0], [1, 1, 1]], numbers = [8, 1],
      cell = [[4, 0, 0], [0, 4, 0], [0, 0, 4]], pbc = [True, True, True]\<rparr>"

definition example_spin_calc :: vasp where
  "example_spin_calc =
     example_calc\<lparr>objects := [example_atoms], atoms := Some 0, spinpol := True,
                  sort_list := [1, 0], resort_list := [1, 0]\<rparr>"

definition outcar_magnetic :: "string list" where
  "outcar_magnetic =
     ['' number of electron  8.0 magnetization 2.0'',
      '' POSITION TOTAL-FORCE (eV/Angst)'',
      '' ----'',
      '' 0.0 0.0 0.0 0.1 0.0 0.0'',
      '' 1.0 1.0 1.0 -0.1 0.0 0.0'',
      '' magnetization (x)'',
      [CHR 0x0A],
      '' # of ion s p d tot'',
      '' ----'',
      '' 1 0.0 0.0 1.5 1.53'',
      '' 2 0.0 0.0 0.1 0.103'']"

text \<open>
  The collaborators for the concrete inputs: a \<^verbatim>\<open>vasprun.xml\<close> with an energy and the
  forces of the two sites in the program's order, base-class methods that change nothing,
  a program that exits with status 137, and \<^verbatim>\<open>float\<close> on the strings of the logs.
\<close>

definition example_xml :: xml_calc where
  "example_xml =
     \<lparr>xml_results =
        [(''energy'', PFloat (- 10)),
         (''forces'', PList [PList [PFloat (1 / 10), PFloat 0, PFloat 0],
                             PList [PFloat (- 1 / 10), PFloat 0, PFloat 0]])],
      xml_spinpol = True\<rparr>"

definition example_ase :: ase where
  "example_ase =
     \<lparr>base_check_state = (\<lambda>old new tol. []),
      label_setter = (\<lambda>v s. (Inr (), s)),
      calculator_set = (\<lambda>kw s. (Inr [], s)),
      generate_set = (\<lambda>kw s. (Inr (), s)),
      generate_initialize = (\<lambda>a s. (Inr (), s)),
      generate_write_input = (\<lambda>a s. (Inr (), s)),
      old_getters = (\<lambda>s. (Inr (), s)),
      read_structure = (\<lambda>name. Inl (FileNotFoundError name)),
      read_vasprun = Inr (Some example_xml),
      cell_rank = (\<lambda>c. 3),
      run_process = (\<lambda>cmd out dir. Inr 137),
      py_str = (\<lambda>v. case v of PStr t \<Rightarrow> t | _ \<Rightarrow> []),
      float_of = example_float\<rparr>"

section \<open>The structural comparison of the base class\<close>

text \<open>
  Modelled from the spec: \<^verbatim>\<open>Calculator.check_state\<close> of the ASE library, which
  \<^verbatim>\<open>Vasp.check_state\<close> calls first and which is not part of the module. The
  specification (4.2, structural change) says that it compares position, cell, species
  and boundary flags against the last-used structure, within a numeric tolerance on the
  absolute difference per coordinate, and that any exceedance flags that category as
  changed. The categories are named \<^verbatim>\<open>positions\<close>, \<^verbatim>\<open>numbers\<close>, \<^verbatim>\<open>cell\<close> and
  \<^verbatim>\<open>pbc\<close> here; arrays of different shapes count as changed, and without a last-used
  structure every category does.
\<close>

definition exceeds :: "real \<Rightarrow> real list list \<Rightarrow> real list list \<Rightarrow> bool" where
  "exceeds tol xs ys =
     (map length xs \<noteq> map length ys
      \<or> list_ex (\<lambda>ab. \<bar>fst ab - snd ab\<bar> > tol) (zip (concat xs) (concat ys)))"

definition compare_atoms_spec :: "atoms_obj option \<Rightarrow> atoms_obj \<Rightarrow> real \<Rightarrow> string list" where
  "compare_atoms_spec last_used a tol =
     (case last_used of
        None \<Rightarrow> [''positions'', ''numbers'', ''cell'', ''pbc'']
      | Some b \<Rightarrow>
          (if exceeds tol (positions b) (positions a) then [''positions''] else []) @
          (if numbers b \<noteq> numbers a then [''numbers''] else []) @
          (if exceeds tol (cell b) (cell a) then [''cell''] else []) @
          (if pbc b \<noteq> pbc a then [''pbc''] else []))"

text \<open>Python dictionaries have distinct keys: the ten parameter dictionaries of a state.\<close>

definition params_ok :: "vasp \<Rightarrow> bool" where
  "params_ok s = list_all (\<lambda>entry. distinct (map fst (snd entry))) (current_params s)"

text \<open>
  For the change detector: the collaborators with the structural comparison above, and a
  calculator whose snapshot is current and whose store holds, besides its own structure,
  one with a single coordinate moved by \<open>1 / 10 ^ 10\<close>.
\<close>

definition example_comparing_ase :: ase where
  "example_comparing_ase = example_ase\<lparr>base_check_state := compare_atoms_spec\<rparr>"

definition example_moved_atoms :: atoms_obj where
  "example_moved_atoms = example_atoms\<lparr>positions := [[0, 1 / 10 ^ 10, 0], [1, 1, 1]]\<rparr>"

definition example_checked_calc :: vasp where
  "example_checked_calc =
     store_param_state (example_spin_calc\<lparr>objects := [example_atoms, example_moved_atoms]\<rparr>)"

section \<open>The persisted snapshot: \<^verbatim>\<open>Vasp.asdict\<close> and \<^verbatim>\<open>Vasp.fromdict\<close>\<close>

text \<open>
  The dictionary that \<^verbatim>\<open>asdict\<close> returns and \<^verbatim>\<open>fromdict\<close> reads. \<^verbatim>\<open>fromdict\<close> tests
  every key for presence, so each field is optional; the version of VASP may be
  \<^verbatim>\<open>None\<close> under a present key. The structure is kept by value: \<^verbatim>\<open>atoms2dict\<close> and
  \<^verbatim>\<open>AtomsRow(...).toatoms()\<close> of the ASE library are taken to encode and decode it
  without loss, the latter into a new object.
\<close>

record snapshot =
  ase_version :: "string option"
  vasp_version :: "string option option"
  inputs :: "pydict option"
  snap_results :: "pydict option"
  snap_atoms :: "atoms_obj option"

definition get_version :: "workdir \<Rightarrow> vasp \<Rightarrow> (error + string option) \<times> vasp" where
  "get_version wd s =
     (if version s = None
      then (case read_version wd of
              Inl e \<Rightarrow> (Inl e, s)
            | Inr v \<Rightarrow> (Inr v, s\<lparr>version := v\<rparr>))
      else (Inr (version s), s))"

text \<open>
  The dictionary comprehension of \<^verbatim>\<open>asdict\<close>: the categories in the order of the
  snapshot, the entries of each in their order, the entries with value \<^verbatim>\<open>None\<close> left
  out; a key met again takes the later value.
\<close>

definition flatten_inputs :: "(string \<times> pydict) list \<Rightarrow> pydict" where
  "flatten_inputs ps =
     foldl (\<lambda>acc kv. if snd kv \<noteq> PNone then setitem acc (fst kv) (snd kv) else acc) []
       (concat (map snd ps))"

text \<open>
  \<^verbatim>\<open>asdict\<close>; \<open>asevers\<close> is \<^verbatim>\<open>ase.__version__\<close>. The test \<^verbatim>\<open>if self.atoms:\<close> holds
  for a structure with at least one site.
\<close>

definition asdict :: "string \<Rightarrow> workdir \<Rightarrow> vasp \<Rightarrow> (error + snapshot) \<times> vasp" where
  "asdict asevers wd s =
     sbind (get_version wd s) (\<lambda>vaspvers s1.
       let s2 = store_param_state s1
       in (Inr \<lparr>ase_version = Some asevers,
                vasp_version = Some vaspvers,
                inputs = Some (flatten_inputs (param_state s2)),
                snap_results = Some (results s2),
                snap_atoms =
                  (case atoms s2 of
                     None \<Rightarrow> None
                   | Some r \<Rightarrow>
                       if positions (objects s2 ! r) \<noteq> [] then Some (objects s2 ! r)
                       else None)\<rparr>, s2))"

definition fromdict :: "ase \<Rightarrow> vasp \<Rightarrow> snapshot \<Rightarrow> (error + unit) \<times> vasp" where
  "fromdict x s dct =
     (let s1 = (case vasp_version dct of None \<Rightarrow> s | Some v \<Rightarrow> s\<lparr>version := v\<rparr>) in
      sbind (case inputs dct of
               None \<Rightarrow> (Inr (), s1)
             | Some kw \<Rightarrow> sbind (vasp_set x s1 kw) (\<lambda>_ t. (Inr (), store_param_state t)))
        (\<lambda>_ s2.
      sbind (case snap_atoms dct of
               None \<Rightarrow> (Inr (), s2)
             | Some a \<Rightarrow>
                 set_atoms x (s2\<lparr>objects := objects s2 @ [a]\<rparr>) (Some (length (objects s2))))
        (\<lambda>_ s3.
      (Inr (), case snap_results dct of
                 None \<Rightarrow> s3
               | Some r \<Rightarrow> s3\<lparr>results := dict_update (results s3) r\<rparr>))))"

text \<open>
  For the statements about the round trip. \<open>nonnull\<close> drops the entries with value
  \<^verbatim>\<open>None\<close>; \<open>dict_eq\<close> is equality of dictionaries, whatever the order of their
  entries; two snapshots are equal ignoring null-valued entries when they have the same
  categories and each category holds the same non-null entries. \<open>store_inputs\<close> puts
  every passed value under its key in a dictionary that has the key. Categories are
  disjoint when no key occurs in two of them.
\<close>

definition nonnull :: "pydict \<Rightarrow> pydict" where
  "nonnull d = filter (\<lambda>kv. snd kv \<noteq> PNone) d"

definition dict_eq :: "pydict \<Rightarrow> pydict \<Rightarrow> bool" where
  "dict_eq d e = list_all (\<lambda>k. map_of d k = map_of e k) (map fst d @ map fst e)"

definition equal_ignoring_null :: "(string \<times> pydict) list \<Rightarrow> (string \<times> pydict) list \<Rightarrow> bool" where
  "equal_ignoring_null p q =
     (map fst p = map fst q
      \<and> list_all (\<lambda>cd. dict_eq (nonnull (fst cd)) (nonnull (snd cd))) (zip (map snd p) (map snd q)))"

definition store_inputs :: "pydict \<Rightarrow> pydict \<Rightarrow> pydict" where
  "store_inputs kw d =
     map (\<lambda>kv. (fst kv, case map_of kw (fst kv) of None \<Rightarrow> snd kv | Some w \<Rightarrow> w)) d"

definition disjoint_categories :: "(string \<times> pydict) list \<Rightarrow> bool" where
  "disjoint_categories ps = distinct (map fst (concat (map snd ps)))"

definition calculator_keywords :: "string list" where
  "calculator_keywords = [''label'', ''directory'', ''txt'', ''atoms'', ''command'']"

text \<open>
  A target of an import agrees with the original off the inputs \<open>kw\<close> when, category
  by category, it has the same keys and the same non-null value under every key for
  which \<open>kw\<close> carries no value.
\<close>

definition agrees_off_inputs ::
  "pydict \<Rightarrow> (string \<times> pydict) list \<Rightarrow> (string \<times> pydict) list \<Rightarrow> bool" where
  "agrees_off_inputs kw ps pt =
     list_all (\<lambda>cd. set (map fst (snd cd)) = set (map fst (fst cd))
                  \<and> distinct (map fst (snd cd))
                  \<and> (\<forall>k\<in>set (map fst (fst cd)). map_of kw k = None \<longrightarrow>
                        map_of (nonnull (snd cd)) k = map_of (nonnull (fst cd)) k))
       (zip (map snd ps) (map snd pt))"

definition without_keywords :: "pydict \<Rightarrow> pydict" where
  "without_keywords kwargs =
     delitem (delitem (delitem (delitem (delitem kwargs ''label'') ''directory'') ''txt'')
       ''atoms'') ''command''"

text \<open>
  \<^verbatim>\<open>set\<close> in two steps, for the proofs about the import: the assignments of the five
  calculator keywords (popping one keyword does not change the presence of another), then
  the calls made with the remaining keywords.
\<close>

definition keyword_steps :: "ase \<Rightarrow> vasp \<Rightarrow> pydict \<Rightarrow> (error + unit) \<times> vasp" where
  "keyword_steps x s kwargs =
     sbind (case map_of kwargs ''label'' of
              None \<Rightarrow> (Inr (), s)
            | Some v \<Rightarrow> label_setter x v s) (\<lambda>_ s1.
     let s2 = (case map_of kwargs ''directory'' of
                 None \<Rightarrow> s1
               | Some v \<Rightarrow> s1\<lparr>directory := py_str x v\<rparr>);
         s3 = (case map_of kwargs ''txt'' of
                 None \<Rightarrow> s2
               | Some v \<Rightarrow> s2\<lparr>txt_attr := v\<rparr>)
     in
     sbind (case map_of kwargs ''atoms'' of
              None \<Rightarrow> (Inr (), s3)
            | Some v \<Rightarrow> set_atoms_value x s3 v) (\<lambda>_ s4.
       (Inr (), case map_of kwargs ''command'' of
                  None \<Rightarrow> s4
                | Some v \<Rightarrow> s4\<lparr>command := as_command v\<rparr>)))"

definition input_steps :: "ase \<Rightarrow> pydict \<Rightarrow> vasp \<Rightarrow> (error + unit) \<times> vasp" where
  "input_steps x k5 s5 =
     sbind (calculator_set x k5 s5) (\<lambda>changed_parameters s6.
     let s7 = (if changed_parameters \<noteq> [] then clear_results s6 else s6)
     in if k5 \<noteq> []
        then sbind (generate_set x k5 s7) (\<lambda>_ s8. (Inr (), s8\<lparr>results := []\<rparr>))
        else (Inr (), s7))"

section \<open>Properties of command resolution\<close>

lemma str_replace_absent:
  assumes "old \<noteq> []" and "\<not> py_in old s"
  shows "str_replace s old new = s"
  using assms
proof (induction s)
  case Nil
  then show ?case by (simp add: str_replace.simps)
next
  case (Cons c cs)
  from Cons.prems have no_head: "\<not> starts_with (c # cs) old" and no_tail: "\<not> py_in old cs"
    by simp_all
  from Cons.IH [OF Cons.prems(1) no_tail] have "str_replace cs old new = cs" .
  with no_head Cons.prems(1) show ?case
    by (subst str_replace.simps) simp
qed

text \<open>
  Claim C1, as the code has it. A non-empty explicit command is returned untouched. A
  missing or empty command falls through to the environment: the first variable set among
  \<^verbatim>\<open>ASE_VASP_COMMAND\<close>, \<^verbatim>\<open>VASP_COMMAND\<close>, \<^verbatim>\<open>VASP_SCRIPT\<close> (in that order) gives the
  command, after every occurrence of the text \<^verbatim>\<open>PREFIX\<close> in its value has been replaced
  by the calculator's prefix, and the value of \<^verbatim>\<open>VASP_SCRIPT\<close> is put behind the
  interpreter's executable and a space. With no usable command and none of the three
  variables set, \<^verbatim>\<open>CalculatorSetupError\<close> is raised. A value that does not contain
  \<^verbatim>\<open>PREFIX\<close> is used as it is.
\<close>

theorem make_command_priority:
  "(carg = Some cmd \<and> cmd \<noteq> [] \<longrightarrow>
      make_command environ exe pfx carg = Inr cmd)
   \<and> ((carg = None \<or> carg = Some []) \<and> environ ''ASE_VASP_COMMAND'' = Some v \<longrightarrow>
      make_command environ exe pfx carg = Inr (str_replace v ''PREFIX'' pfx))
   \<and> ((carg = None \<or> carg = Some []) \<and> environ ''ASE_VASP_COMMAND'' = None
        \<and> environ ''VASP_COMMAND'' = Some v \<longrightarrow>
      make_command environ exe pfx carg = Inr (str_replace v ''PREFIX'' pfx))
   \<and> ((carg = None \<or> carg = Some []) \<and> environ ''ASE_VASP_COMMAND'' = None
        \<and> environ ''VASP_COMMAND'' = None \<and> environ ''VASP_SCRIPT'' = Some v \<longrightarrow>
      make_command environ exe pfx carg =
        Inr (exe @ '' '' @ str_replace v ''PREFIX'' pfx))
   \<and> ((carg = None \<or> carg = Some []) \<and> environ ''ASE_VASP_COMMAND'' = None
        \<and> environ ''VASP_COMMAND'' = None \<and> environ ''VASP_SCRIPT'' = None \<longrightarrow>
      make_command environ exe pfx carg = Inl (CalculatorSetupError no_command_msg))
   \<and> (\<not> py_in ''PREFIX'' v \<longrightarrow> str_replace v ''PREFIX'' pfx = v)"
  using str_replace_absent [of "''PREFIX''" v pfx]
  by (auto simp: make_command_def env_commands_def)

theorem make_command_priority_witness:
  "make_command [''VASP_COMMAND'' \<mapsto> ''mpirun vasp_std''] ''/usr/bin/python3'' ''vasp''
     (Some ''vasp_gam'') = Inr ''vasp_gam''
   \<and> make_command [''VASP_COMMAND'' \<mapsto> ''mpirun PREFIX'', ''ASE_VASP_COMMAND'' \<mapsto> ''run PREFIX.x'']
       ''/usr/bin/python3'' ''vasp'' None = Inr ''run vasp.x''
   \<and> make_command [''VASP_COMMAND'' \<mapsto> ''mpirun PREFIX'', ''VASP_SCRIPT'' \<mapsto> ''run.py'']
       ''/usr/bin/python3'' ''vasp'' (Some []) = Inr ''mpirun vasp''
   \<and> make_command [''VASP_SCRIPT'' \<mapsto> ''run.py''] ''/usr/bin/python3'' ''vasp'' None
       = Inr ''/usr/bin/python3 run.py''
   \<and> make_command Map.empty ''/usr/bin/python3'' ''vasp'' None
       = Inl (CalculatorSetupError no_command_msg)"
proof -
  have r1: "str_replace ''run PREFIX.x'' ''PREFIX'' ''vasp'' = ''run vasp.x''"
    by (simp add: str_replace.simps)
  have r2: "str_replace ''mpirun PREFIX'' ''PREFIX'' ''vasp'' = ''mpirun vasp''"
    by (simp add: str_replace.simps)
  have r3: "str_replace ''run.py'' ''PREFIX'' ''vasp'' = ''run.py''"
    by (simp add: str_replace.simps)
  show ?thesis
    using make_command_priority
        [where carg = "Some ''vasp_gam''" and cmd = "''vasp_gam''"
           and environ = "[''VASP_COMMAND'' \<mapsto> ''mpirun vasp_std'']"
           and exe = "''/usr/bin/python3''" and pfx = "''vasp''" and v = "''mpirun vasp_std''"]
      make_command_priority
        [where carg = None and cmd = "[]"
           and environ = "[''VASP_COMMAND'' \<mapsto> ''mpirun PREFIX'', ''ASE_VASP_COMMAND'' \<mapsto> ''run PREFIX.x'']"
           and exe = "''/usr/bin/python3''" and pfx = "''vasp''" and v = "''run PREFIX.x''"]
      make_command_priority
        [where carg = "Some []" and cmd = "[]"
           and environ = "[''VASP_COMMAND'' \<mapsto> ''mpirun PREFIX'', ''VASP_SCRIPT'' \<mapsto> ''run.py'']"
           and exe = "''/usr/bin/python3''" and pfx = "''vasp''" and v = "''mpirun PREFIX''"]
      make_command_priority
        [where carg = None and cmd = "[]" and environ = "[''VASP_SCRIPT'' \<mapsto> ''run.py'']"
           and exe = "''/usr/bin/python3''" and pfx = "''vasp''" and v = "''run.py''"]
      make_command_priority
        [where carg = None and cmd = "[]" and environ = Map.empty
           and exe = "''/usr/bin/python3''" and pfx = "''vasp''" and v = "[]"]
    by (simp add: r1 r2 r3)
qed

text \<open>
  The resolution as the specification words it differs from the code in two places: a value
  containing \<^verbatim>\<open>PREFIX\<close> is not used as it is, and an explicit empty command is not
  returned.
\<close>

theorem make_command_spec_counterexample:
  "make_command [''VASP_COMMAND'' \<mapsto> ''mpirun PREFIX''] ''/usr/bin/python3'' ''vasp'' None
     = Inr ''mpirun vasp''
   \<and> make_command [''VASP_COMMAND'' \<mapsto> ''mpirun PREFIX''] ''/usr/bin/python3'' ''vasp'' None
     \<noteq> make_command_spec [''VASP_COMMAND'' \<mapsto> ''mpirun PREFIX''] ''/usr/bin/python3'' None
   \<and> make_command [''VASP_COMMAND'' \<mapsto> ''vasp_std''] ''/usr/bin/python3'' ''vasp'' (Some [])
     = Inr ''vasp_std''
   \<and> make_command [''VASP_COMMAND'' \<mapsto> ''vasp_std''] ''/usr/bin/python3'' ''vasp'' (Some [])
     \<noteq> make_command_spec [''VASP_COMMAND'' \<mapsto> ''vasp_std''] ''/usr/bin/python3'' (Some [])"
  by (simp add: make_command_def make_command_spec_def env_commands_def str_replace.simps)

section \<open>Properties of the persisted permutation\<close>

lemma py_int_error: "py_int a = Inl e \<Longrightarrow> e = ValueError"
  by (auto simp: py_int_def split: list.splits if_splits option.splits)

lemma two_ints_Some:
  "two_ints l = Some (i, j) \<Longrightarrow> \<exists>a b. split_ws l = [a, b] \<and> py_int a = Inr i \<and> py_int b = Inr j"
  by (auto simp: two_ints_def split: list.splits sum.splits)

lemma read_sort_lines_ok:
  "list_all (\<lambda>l. two_ints l \<noteq> None) ls \<Longrightarrow>
     read_sort_lines ls s =
       (Inr (), s\<lparr>sort_list := sort_list s @ map (fst \<circ> the \<circ> two_ints) ls,
                  resort_list := resort_list s @ map (snd \<circ> the \<circ> two_ints) ls\<rparr>)"
proof (induction ls arbitrary: s)
  case Nil
  then show ?case by simp
next
  case (Cons l ls)
  from Cons.prems obtain i j where ij: "two_ints l = Some (i, j)" by auto
  from two_ints_Some [OF ij] obtain a b
    where ab: "split_ws l = [a, b]" "py_int a = Inr i" "py_int b = Inr j" by blast
  from Cons.prems have rest: "list_all (\<lambda>l. two_ints l \<noteq> None) ls" by simp
  show ?case
    by (simp add: ab ij Cons.IH [OF rest] Let_def)
qed

lemma read_sort_lines_bad:
  "\<exists>l\<in>set ls. length (split_ws l) \<noteq> 2 \<Longrightarrow> fst (read_sort_lines ls s) = Inl ValueError"
proof (induction ls arbitrary: s)
  case Nil
  then show ?case by simp
next
  case (Cons l ls)
  show ?case
  proof (cases "length (split_ws l) = 2")
    case False
    then show ?thesis
      by (auto split: list.splits)
  next
    case True
    then obtain a b where ab: "split_ws l = [a, b]"
      by (cases "split_ws l"; simp; case_tac list; simp)
    with Cons.prems have rest: "\<exists>l\<in>set ls. length (split_ws l) \<noteq> 2" by auto
    show ?thesis
      using Cons.IH [OF rest] py_int_error
      by (auto simp: ab Let_def split: sum.splits)
  qed
qed

text \<open>
  Claim C8. When \<^verbatim>\<open>ase-sort.dat\<close> exists and every line holds exactly two integers,
  \<^verbatim>\<open>read_sort\<close> succeeds and \<^verbatim>\<open>sort\<close> and \<^verbatim>\<open>resort\<close> are the two columns of the
  file, whatever the calculator's structure and whatever the numbers (nothing checks that
  they are permutations or match the site count). When some line has a token count other
  than two, the call raises \<^verbatim>\<open>ValueError\<close>. When the file exists, the outcome does not
  depend on the final-structure file or on \<^verbatim>\<open>initialize\<close>; only when it is absent is the
  sorting recomputed, by \<^verbatim>\<open>initialize\<close> on the structure read from \<^verbatim>\<open>CONTCAR\<close>.
\<close>

theorem read_sort_trusts_file:
  "(sortfile wd = Some ls \<and> list_all (\<lambda>l. two_ints l \<noteq> None) ls \<longrightarrow>
      read_sort wd rc init s =
        (Inr (), s\<lparr>sort_list := map (fst \<circ> the \<circ> two_ints) ls,
                   resort_list := map (snd \<circ> the \<circ> two_ints) ls\<rparr>))
   \<and> (sortfile wd = Some ls \<and> (\<exists>l\<in>set ls. length (split_ws l) \<noteq> 2) \<longrightarrow>
      fst (read_sort wd rc init s) = Inl ValueError)
   \<and> (sortfile wd = Some ls \<longrightarrow> read_sort wd rc init s = read_sort wd rc' init' s)
   \<and> (sortfile wd = None \<longrightarrow>
      read_sort wd rc init s = (case rc of Inl e \<Rightarrow> (Inl e, s) | Inr a \<Rightarrow> init a s))"
  using read_sort_lines_ok [of ls "s\<lparr>sort_list := [], resort_list := []\<rparr>"]
    read_sort_lines_bad [of ls "s\<lparr>sort_list := [], resort_list := []\<rparr>"]
  by (auto simp: read_sort_def)

lemmas int_eval = two_ints_def split_ws_def is_space_def py_int_def str_strip_def is_digit_def
  digit_val_def

theorem read_sort_trusts_file_witness:
  "read_sort \<lparr>sortfile = Some [''5 7'' @ [CHR 0x0A], ''-1 0''], outcar = None\<rparr>
      (Inl (FileNotFoundError ''CONTCAR'')) (\<lambda>a s. (Inr (), s)) example_calc
     = (Inr (), example_calc\<lparr>sort_list := [5, -1], resort_list := [7, 0]\<rparr>)
   \<and> fst (read_sort \<lparr>sortfile = Some [''0 0'', ''1 2 3''], outcar = None\<rparr>
      (Inl (FileNotFoundError ''CONTCAR'')) (\<lambda>a s. (Inr (), s)) example_calc)
     = Inl ValueError
   \<and> read_sort \<lparr>sortfile = None, outcar = None\<rparr>
      (Inr \<lparr>positions = [[0, 0, 0]], numbers = [1], cell = [], pbc = []\<rparr>)
      (\<lambda>a s. (Inr (), s\<lparr>sort_list := [0], resort_list := [0]\<rparr>)) example_calc
     = (Inr (), example_calc\<lparr>sort_list := [0], resort_list := [0]\<rparr>)"
proof -
  have t1: "two_ints (''5 7'' @ [CHR 0x0A]) = Some (5, 7)"
    by (simp add: int_eval)
  have t2: "two_ints ''-1 0'' = Some (-1, 0)"
    by (simp add: int_eval)
  have t3: "length (split_ws ''1 2 3'') \<noteq> 2"
    by (simp add: int_eval)
  show ?thesis
    using read_sort_trusts_file
        [where wd = "\<lparr>sortfile = Some [''5 7'' @ [CHR 0x0A], ''-1 0''], outcar = None\<rparr>"
           and ls = "[''5 7'' @ [CHR 0x0A], ''-1 0'']"
           and rc = "Inl (FileNotFoundError ''CONTCAR'')" and init = "\<lambda>a s. (Inr (), s)"
           and s = example_calc]
      read_sort_trusts_file
        [where wd = "\<lparr>sortfile = Some [''0 0'', ''1 2 3''], outcar = None\<rparr>"
           and ls = "[''0 0'', ''1 2 3'']"
           and rc = "Inl (FileNotFoundError ''CONTCAR'')" and init = "\<lambda>a s. (Inr (), s)"
           and s = example_calc]
      read_sort_trusts_file
        [where wd = "\<lparr>sortfile = None, outcar = None\<rparr>"
           and rc = "Inr \<lparr>positions = [[0, 0, 0]], numbers = [1], cell = [], pbc = []\<rparr>"
           and init = "\<lambda>a s. (Inr (), s\<lparr>sort_list := [0], resort_list := [0]\<rparr>)"
           and s = example_calc]
    by (simp add: t1 [simplified] t2 t3)
qed

section \<open>Properties of the convergence check\<close>

lemma ebind_Inr: "ebind m f = Inr r \<Longrightarrow> \<exists>x. m = Inr x \<and> f x = Inr r"
  by (cases m) simp_all

lemma read_ediff_Inr:
  "read_ediff pf line e = Inr e' \<Longrightarrow>
     e' = (if py_in ''EDIFF  '' line
           then (case py_index (split_ws line) 2 of Inl e \<Rightarrow> None | Inr t \<Rightarrow> pf t)
           else e)"
  by (auto simp: read_ediff_def py_float_def dest!: ebind_Inr split: if_splits option.splits)

lemma scan_no_energy_change:
  "scan_convergence pf ls e c = Inr r \<Longrightarrow> \<not> list_ex energy_change_line ls \<Longrightarrow> r = c"
proof (induction ls arbitrary: e)
  case Nil
  then show ?case by simp
next
  case (Cons l ls)
  from Cons.prems(1) obtain e' where e': "read_ediff pf l e = Inr e'"
    and rest: "scan_convergence pf ls e' c = Inr r"
    using Cons.prems(2) by (auto simp: energy_change_line_def dest!: ebind_Inr split: if_splits)
  from Cons.prems(2) have "\<not> list_ex energy_change_line ls" by simp
  from Cons.IH [OF rest this] show ?case .
qed

lemma scan_last_energy_change:
  "scan_convergence pf (pre @ l # post) e c = Inr r \<Longrightarrow> energy_change_line l \<Longrightarrow>
   \<not> list_ex energy_change_line post \<Longrightarrow>
     \<exists>b. energy_change_check pf l (last_ediff pf (pre @ [l]) e) = Inr b \<and> r = Some b"
proof (induction pre arbitrary: e c)
  case Nil
  from Nil.prems(1,2) obtain e' b where e': "read_ediff pf l e = Inr e'"
    and b: "energy_change_check pf l e' = Inr b"
    and rest: "scan_convergence pf post e' (Some b) = Inr r"
    by (auto simp: energy_change_line_def dest!: ebind_Inr)
  from scan_no_energy_change [OF rest Nil.prems(3)] have "r = Some b" .
  with b read_ediff_Inr [OF e'] show ?case by simp
next
  case (Cons x pre)
  from Cons.prems(1) obtain e' c' where e': "read_ediff pf x e = Inr e'"
    and rest: "scan_convergence pf (pre @ l # post) e' c' = Inr r"
    by (auto dest!: ebind_Inr split: if_splits)
  from Cons.IH [OF rest Cons.prems(2,3)] read_ediff_Inr [OF e'] show ?case by simp
qed

lemma energy_change_check_value:
  "energy_change_check pf l (Some ed) = Inr b \<Longrightarrow>
     \<exists>s1 sa sb x y. py_index (split_chr l CHR '':'') 1 = Inr s1
       \<and> py_index (split_chr s1 CHR ''('') 0 = Inr sa \<and> pf sa = Some x
       \<and> py_index (split_chr s1 CHR ''('') 1 = Inr sb
       \<and> pf (repair_exponent (take (length sb - 2) sb)) = Some y
       \<and> b = (\<bar>x\<bar> < ed \<or> \<bar>x\<bar> = ed \<and> \<bar>y\<bar> < ed)"
  unfolding energy_change_check_def
  by (fastforce simp: py_float_def dest!: ebind_Inr split: option.splits)

lemma ionic_requested_ints:
  "getitem (int_params s) ''ibrion'' = Inr (PInt i) \<Longrightarrow>
   getitem (int_params s) ''nsw'' = Inr (PInt n) \<Longrightarrow>
     ionic_requested s = Inr (i \<in> {1, 2, 3} \<and> n \<noteq> 0)"
  by (auto simp: ionic_requested_def in_ints_def)

lemmas log_eval = split_ws_def split_chr_def is_space_def py_index_def py_float_def
  example_float_def repair_exponent_def str_lower_def lower_char_def str_replace.simps
  energy_change_check_def read_ediff_def

lemma scan_unconverged:
  "scan_convergence example_float outcar_unconverged None None = Inr (Some False)"
  by (simp add: outcar_unconverged_def log_eval)

lemma scan_repaired:
  "scan_convergence example_float outcar_repaired None None = Inr (Some True)"
  by (simp add: outcar_repaired_def log_eval)

lemma ionic_example: "ionic_requested example_calc = Inr True"
  by (simp add: ionic_requested_def example_calc_def getitem_def in_ints_def)

lemma not_ionic_example:
  "ionic_requested (example_calc\<lparr>int_params := [(''ibrion'', PInt (-1)), (''nsw'', PInt 0)]\<rparr>)
     = Inr False"
  by (simp add: ionic_requested_def getitem_def in_ints_def)

lemma repair_exponent_keeps: "py_in ''e'' (str_lower t) \<Longrightarrow> repair_exponent t = t"
  by (simp add: repair_exponent_def)

lemma repair_exponent_example: "repair_exponent '' 0.2737684-111'' = '' 0.2737684e-111''"
  by (simp add: repair_exponent_def str_lower_def lower_char_def split_chr_def str_replace.simps)

text \<open>
  Claim C4, as the code has it. When ionic relaxation was requested (\<^verbatim>\<open>ibrion\<close> equal to
  1, 2 or 3 and \<^verbatim>\<open>nsw\<close> not equal to 0) and the scan of the log raised nothing, the result
  is decided by the marker alone: \<open>True\<close> exactly when a line of \<^verbatim>\<open>OUTCAR\<close> contains
  \<^verbatim>\<open>reached required accuracy\<close>, whatever the electronic check found. Otherwise the result
  is that of the electronic check: \<^verbatim>\<open>None\<close> when no line contains
  \<^verbatim>\<open>total energy-change\<close> without \<^verbatim>\<open>MIXING\<close>, and else the check of the last such
  line against the value of the last \<^verbatim>\<open>EDIFF\<close> line before it. That check parses the
  two numbers \<open>x\<close> and \<open>y\<close> after the colon, the second after the repair of its exponent,
  and holds when \<^verbatim>\<open>[abs(x), abs(y)] < [ediff, ediff]\<close> in Python's list order: \<open>\<bar>x\<bar>\<close>
  below the threshold, or equal to it with \<open>\<bar>y\<bar>\<close> below. The repair leaves a number with
  an \<^verbatim>\<open>e\<close> alone and turns \<^verbatim>\<open>0.2737684-111\<close> into \<^verbatim>\<open>0.2737684e-111\<close>.
\<close>

theorem read_convergence_combination:
  "(lines_or_outcar wd lines = Inr ls \<and> scan_convergence pf ls None None = Inr conv
      \<and> ionic_requested s = Inr True \<and> outcar wd = Some ols \<longrightarrow>
      read_convergence pf wd s lines
        = Inr (Some (list_ex (py_in ''reached required accuracy'') ols)))
   \<and> (lines_or_outcar wd lines = Inr ls \<and> scan_convergence pf ls None None = Inr conv
      \<and> ionic_requested s = Inr False \<longrightarrow>
      read_convergence pf wd s lines = Inr conv)
   \<and> (getitem (int_params s) ''ibrion'' = Inr (PInt i)
      \<and> getitem (int_params s) ''nsw'' = Inr (PInt n) \<longrightarrow>
      ionic_requested s = Inr (i \<in> {1, 2, 3} \<and> n \<noteq> 0))
   \<and> (scan_convergence pf ls None None = Inr conv \<and> \<not> list_ex energy_change_line ls \<longrightarrow>
      conv = None)
   \<and> (scan_convergence pf (pre @ l # post) None None = Inr conv' \<and> energy_change_line l
      \<and> \<not> list_ex energy_change_line post \<longrightarrow>
      (\<exists>b. energy_change_check pf l (last_ediff pf (pre @ [l]) None) = Inr b \<and> conv' = Some b))
   \<and> (energy_change_check pf l (Some ed) = Inr c \<longrightarrow>
      (\<exists>s1 sa sb x y. py_index (split_chr l CHR '':'') 1 = Inr s1
         \<and> py_index (split_chr s1 CHR ''('') 0 = Inr sa \<and> pf sa = Some x
         \<and> py_index (split_chr s1 CHR ''('') 1 = Inr sb
         \<and> pf (repair_exponent (take (length sb - 2) sb)) = Some y
         \<and> c = (\<bar>x\<bar> < ed \<or> \<bar>x\<bar> = ed \<and> \<bar>y\<bar> < ed)))
   \<and> (py_in ''e'' (str_lower t) \<longrightarrow> repair_exponent t = t)
   \<and> repair_exponent '' 0.2737684-111'' = '' 0.2737684e-111''"
proof -
  have ionic: "lines_or_outcar wd lines = Inr ls \<and> scan_convergence pf ls None None = Inr conv
      \<and> ionic_requested s = Inr True \<and> outcar wd = Some ols \<longrightarrow>
      read_convergence pf wd s lines
        = Inr (Some (list_ex (py_in ''reached required accuracy'') ols))"
    by (simp add: read_convergence_def read_relaxed_def lines_or_outcar_def load_file_def)
  have electronic: "lines_or_outcar wd lines = Inr ls \<and> scan_convergence pf ls None None = Inr conv
      \<and> ionic_requested s = Inr False \<longrightarrow>
      read_convergence pf wd s lines = Inr conv"
    by (simp add: read_convergence_def)
  have requested: "getitem (int_params s) ''ibrion'' = Inr (PInt i)
      \<and> getitem (int_params s) ''nsw'' = Inr (PInt n) \<longrightarrow>
      ionic_requested s = Inr (i \<in> {1, 2, 3} \<and> n \<noteq> 0)"
    using ionic_requested_ints by blast
  have none: "scan_convergence pf ls None None = Inr conv \<and> \<not> list_ex energy_change_line ls \<longrightarrow>
      conv = None"
    using scan_no_energy_change by blast
  have last: "scan_convergence pf (pre @ l # post) None None = Inr conv' \<and> energy_change_line l
      \<and> \<not> list_ex energy_change_line post \<longrightarrow>
      (\<exists>b. energy_change_check pf l (last_ediff pf (pre @ [l]) None) = Inr b \<and> conv' = Some b)"
    using scan_last_energy_change by blast
  have check: "energy_change_check pf l (Some ed) = Inr c \<longrightarrow>
      (\<exists>s1 sa sb x y. py_index (split_chr l CHR '':'') 1 = Inr s1
         \<and> py_index (split_chr s1 CHR ''('') 0 = Inr sa \<and> pf sa = Some x
         \<and> py_index (split_chr s1 CHR ''('') 1 = Inr sb
         \<and> pf (repair_exponent (take (length sb - 2) sb)) = Some y
         \<and> c = (\<bar>x\<bar> < ed \<or> \<bar>x\<bar> = ed \<and> \<bar>y\<bar> < ed))"
    using energy_change_check_value by blast
  from ionic electronic requested none last check repair_exponent_keeps repair_exponent_example
  show ?thesis by blast
qed

theorem read_convergence_combination_witness:
  "read_convergence example_float \<lparr>sortfile = None, outcar = Some outcar_repaired\<rparr>
      example_calc None = Inr (Some False)
   \<and> read_convergence example_float \<lparr>sortfile = None, outcar = Some outcar_repaired\<rparr>
      (example_calc\<lparr>int_params := [(''ibrion'', PInt (-1)), (''nsw'', PInt 0)]\<rparr>) None
      = Inr (Some True)
   \<and> energy_change_check example_float (outcar_repaired ! 1)
      (last_ediff example_float (take 2 outcar_repaired) None) = Inr True
   \<and> ionic_requested example_calc = Inr True"
proof -
  let ?wd = "\<lparr>sortfile = None, outcar = Some outcar_repaired\<rparr>"
  let ?s = "example_calc\<lparr>int_params := [(''ibrion'', PInt (-1)), (''nsw'', PInt 0)]\<rparr>"
  have lines: "lines_or_outcar ?wd None = Inr outcar_repaired"
    by (simp add: lines_or_outcar_def load_file_def)
  have marker: "\<not> list_ex (py_in ''reached required accuracy'') outcar_repaired"
    by (simp add: outcar_repaired_def)
  have a: "read_convergence example_float ?wd example_calc None = Inr (Some False)"
    using read_convergence_combination
        [where wd = ?wd and lines = None and ls = outcar_repaired and pf = example_float
           and conv = "Some True" and s = example_calc and ols = outcar_repaired
           and pre = "[]" and post = "[]" and l = "[]" and conv' = None
           and i = 2 and n = 10 and ed = 0 and c = True and t = "[]"]
      lines scan_repaired ionic_example marker
    by simp
  have b: "read_convergence example_float ?wd ?s None = Inr (Some True)"
    using read_convergence_combination
        [where wd = ?wd and lines = None and ls = outcar_repaired and pf = example_float
           and conv = "Some True" and s = ?s and ols = outcar_repaired
           and pre = "[]" and post = "[]" and l = "[]" and conv' = None
           and i = 2 and n = 10 and ed = 0 and c = True and t = "[]"]
      lines scan_repaired not_ionic_example
    by simp
  have split: "outcar_repaired = take 1 outcar_repaired @ outcar_repaired ! 1 # drop 2 outcar_repaired"
    by (simp add: outcar_repaired_def)
  have l: "energy_change_line (outcar_repaired ! 1)"
    by (simp add: outcar_repaired_def energy_change_line_def)
  have post: "\<not> list_ex energy_change_line (drop 2 outcar_repaired)"
    by (simp add: outcar_repaired_def energy_change_line_def)
  have pre: "take 1 outcar_repaired @ [outcar_repaired ! 1] = take 2 outcar_repaired"
    by (simp add: outcar_repaired_def)
  have c: "energy_change_check example_float (outcar_repaired ! 1)
      (last_ediff example_float (take 2 outcar_repaired) None) = Inr True"
    using read_convergence_combination
        [where pf = example_float and pre = "take 1 outcar_repaired" and l = "outcar_repaired ! 1"
           and post = "drop 2 outcar_repaired" and conv' = "Some True" and s = example_calc
           and wd = ?wd and lines = None and ls = outcar_repaired and conv = "Some True"
           and ols = outcar_repaired and i = 2 and n = 10 and ed = 0 and c = True and t = "[]"]
      scan_repaired split [symmetric] l post pre
    by auto
  have d: "ionic_requested example_calc = Inr True"
    using read_convergence_combination
        [where s = example_calc and i = 2 and n = 10
           and pf = example_float and pre = "[]" and l = "[]" and post = "[]" and conv' = None
           and wd = ?wd and lines = None and ls = outcar_repaired and conv = "Some True"
           and ols = outcar_repaired and ed = 0 and c = True and t = "[]"]
    by (simp add: example_calc_def getitem_def)
  from a b c d show ?thesis by blast
qed

text \<open>
  The combination as the specification words it would make the result \<open>True\<close> only when
  the electronic check passed as well. On the log \<open>outcar_unconverged\<close>, with
  \<^verbatim>\<open>ibrion = 2\<close> and \<^verbatim>\<open>nsw = 10\<close>, the electronic check fails and the result is \<open>True\<close>.
\<close>

theorem read_convergence_marker_counterexample:
  "scan_convergence example_float outcar_unconverged None None = Inr (Some False)
   \<and> ionic_requested example_calc = Inr True
   \<and> read_relaxed \<lparr>sortfile = None, outcar = Some outcar_unconverged\<rparr> None = Inr True
   \<and> read_convergence example_float \<lparr>sortfile = None, outcar = Some outcar_unconverged\<rparr>
        example_calc None = Inr (Some True)"
proof -
  have marker: "list_ex (py_in ''reached required accuracy'') outcar_unconverged"
    by (simp add: outcar_unconverged_def)
  have nonempty: "outcar_unconverged \<noteq> []"
    by (simp add: outcar_unconverged_def)
  show ?thesis
    using marker
    by (simp add: read_convergence_def read_relaxed_def lines_or_outcar_def load_file_def
        scan_unconverged ionic_example)
qed

section \<open>Properties of the magnetic moments\<close>





lemmas calc_eval = example_spin_calc_def example_calc_def example_atoms_def getitem_def



section \<open>Properties of the permutation through \<^verbatim>\<open>resort\<close>\<close>









lemma sbind_Inr:
  "sbind m f = (Inr r, s') \<Longrightarrow> \<exists>v s1. m = (Inr v, s1) \<and> f v s1 = (Inr r, s')"
  by (cases m; case_tac a) simp_all













lemmas text_eval = split_ws_def split_chr_def is_space_def py_index_def py_float_def
  example_float_def


lemma all_forces_example:
  "read_forces example_float \<lparr>sortfile = None, outcar = None\<rparr> example_spin_calc True
      (Some outcar_magnetic)
     = Inr (All_forces [[[- 1 / 10, 0, 0], [1 / 10, 0, 0]]])"
  by (simp add: read_forces_def lines_or_outcar_def outcar_magnetic_def force_block_def
      force_row_def len_atoms_def calc_eval text_eval)




section \<open>Properties of the \<^verbatim>\<open>atoms\<close> setter\<close>

lemma check_state_state: "snd (check_state x s r tol) = s"
  by (simp add: check_state_def Let_def)

lemma set_atoms_unchanged:
  assumes "fst (check_state x s r default_tol) = Inr []"
  shows "set_atoms x s (Some r)
     = (Inr (), s\<lparr>objects := objects s @ [objects s ! r], atoms := Some (length (objects s))\<rparr>)"
proof -
  from assms check_state_state [of x s r default_tol]
  have "check_state x s r default_tol = (Inr [], s)"
    by (metis prod.collapse)
  then show ?thesis
    by (simp add: set_atoms_def copy_atoms_def)
qed

lemma set_atoms_changed:
  assumes "fst (check_state x s r default_tol) = Inr cs" and "cs \<noteq> []"
  shows "set_atoms x s (Some r)
     = (Inr (), (clear_results s)\<lparr>objects := objects s @ [objects s ! r],
                                   atoms := Some (length (objects s))\<rparr>)"
proof -
  from assms check_state_state [of x s r default_tol]
  have "check_state x s r default_tol = (Inr cs, s)"
    by (metis prod.collapse)
  with assms(2) show ?thesis
    by (simp add: set_atoms_def copy_atoms_def clear_results_def)
qed

text \<open>
  Claim C10. Assigning a structure for which \<^verbatim>\<open>check_state\<close> reports no change leaves
  the Result Mapping as it was; assigning one for which it reports a change, or assigning
  \<^verbatim>\<open>None\<close>, empties it. Whenever a structure is assigned, the calculator keeps a
  reference \<open>q\<close> to a new object, different from the passed object \<open>r\<close> and with the
  same contents, so that an update of the store at \<open>r\<close> (the caller mutating its object)
  leaves the calculator's structure as it was.
\<close>

theorem atoms_setter_results_and_copy:
  "(fst (check_state x s r default_tol) = Inr [] \<longrightarrow>
      fst (set_atoms x s (Some r)) = Inr ()
      \<and> results (snd (set_atoms x s (Some r))) = results s)
   \<and> (fst (check_state x s r default_tol) = Inr cs \<and> cs \<noteq> [] \<longrightarrow>
      fst (set_atoms x s (Some r)) = Inr ()
      \<and> results (snd (set_atoms x s (Some r))) = [])
   \<and> results (snd (set_atoms x s None)) = []
   \<and> atoms (snd (set_atoms x s None)) = None
   \<and> (fst (check_state x s r default_tol) = Inr cs \<and> r < length (objects s) \<longrightarrow>
      (\<exists>q. atoms (snd (set_atoms x s (Some r))) = Some q \<and> q \<noteq> r
         \<and> objects (snd (set_atoms x s (Some r))) ! q = objects s ! r
         \<and> (objects (snd (set_atoms x s (Some r))))[r := changed] ! q = objects s ! r))"
proof -
  have copy: "\<exists>q. atoms (snd (set_atoms x s (Some r))) = Some q \<and> q \<noteq> r
         \<and> objects (snd (set_atoms x s (Some r))) ! q = objects s ! r
         \<and> (objects (snd (set_atoms x s (Some r))))[r := changed] ! q = objects s ! r"
    if cs: "fst (check_state x s r default_tol) = Inr cs" and r: "r < length (objects s)"
  proof (cases "cs = []")
    case True
    with cs r show ?thesis
      by (simp add: set_atoms_unchanged nth_append)
  next
    case False
    with cs r show ?thesis
      by (simp add: set_atoms_changed clear_results_def nth_append)
  qed
  have same: "fst (check_state x s r default_tol) = Inr [] \<longrightarrow>
      fst (set_atoms x s (Some r)) = Inr ()
      \<and> results (snd (set_atoms x s (Some r))) = results s"
    by (simp add: set_atoms_unchanged)
  have cleared: "fst (check_state x s r default_tol) = Inr cs \<and> cs \<noteq> [] \<longrightarrow>
      fst (set_atoms x s (Some r)) = Inr ()
      \<and> results (snd (set_atoms x s (Some r))) = []"
    by (simp add: set_atoms_changed clear_results_def)
  have none: "results (snd (set_atoms x s None)) = [] \<and> atoms (snd (set_atoms x s None)) = None"
    by (simp add: set_atoms_def clear_results_def)
  from same cleared none copy show ?thesis by blast
qed

theorem atoms_setter_results_and_copy_witness:
  "results (snd (set_atoms example_ase
       (example_spin_calc\<lparr>results := [(''energy'', PFloat (- 10))]\<rparr>) (Some 0)))
     = [(''energy'', PFloat (- 10))]
   \<and> results (snd (set_atoms (example_ase\<lparr>base_check_state := \<lambda>old new tol. [''positions'']\<rparr>)
       (example_spin_calc\<lparr>results := [(''energy'', PFloat (- 10))]\<rparr>) (Some 0))) = []
   \<and> (\<exists>q. atoms (snd (set_atoms example_ase example_spin_calc (Some 0))) = Some q \<and> q \<noteq> 0
        \<and> (objects (snd (set_atoms example_ase example_spin_calc (Some 0))))
             [0 := example_atoms\<lparr>positions := [[5, 5, 5], [1, 1, 1]]\<rparr>] ! q = example_atoms)"
proof -
  let ?s = "example_spin_calc\<lparr>results := [(''energy'', PFloat (- 10))]\<rparr>"
  let ?y = "example_ase\<lparr>base_check_state := \<lambda>old new tol. [''positions'']\<rparr>"
  let ?moved = "example_atoms\<lparr>positions := [[5, 5, 5], [1, 1, 1]]\<rparr>"
  have same: "fst (check_state example_ase ?s 0 default_tol) = Inr []"
    by (simp add: check_state_def example_ase_def example_spin_calc_def example_calc_def)
  have same': "fst (check_state example_ase example_spin_calc 0 default_tol) = Inr []"
    by (simp add: check_state_def example_ase_def example_spin_calc_def example_calc_def)
  have moved: "fst (check_state ?y ?s 0 default_tol) = Inr [''positions'']"
    by (simp add: check_state_def example_ase_def example_spin_calc_def example_calc_def)
  have a: "results (snd (set_atoms example_ase ?s (Some 0))) = [(''energy'', PFloat (- 10))]"
    using atoms_setter_results_and_copy
        [where x = example_ase and s = ?s and r = 0 and cs = "[]" and changed = ?moved] same
    by simp
  have b: "results (snd (set_atoms ?y ?s (Some 0))) = []"
    using atoms_setter_results_and_copy
        [where x = ?y and s = ?s and r = 0 and cs = "[''positions'']" and changed = ?moved] moved
    by simp
  have c: "\<exists>q. atoms (snd (set_atoms example_ase example_spin_calc (Some 0))) = Some q \<and> q \<noteq> 0
        \<and> (objects (snd (set_atoms example_ase example_spin_calc (Some 0))))[0 := ?moved] ! q
           = example_atoms"
  proof -
    have len: "0 < length (objects example_spin_calc)"
      by (simp add: example_spin_calc_def)
    have obj: "objects example_spin_calc ! 0 = example_atoms"
      by (simp add: example_spin_calc_def)
    from atoms_setter_results_and_copy
        [where x = example_ase and s = example_spin_calc and r = 0 and cs = "[]"
           and changed = ?moved] same' len
    obtain q where "atoms (snd (set_atoms example_ase example_spin_calc (Some 0))) = Some q"
      and "q \<noteq> 0"
      and "(objects (snd (set_atoms example_ase example_spin_calc (Some 0))))[0 := ?moved] ! q
           = objects example_spin_calc ! 0"
      by blast
    with obj show ?thesis by auto
  qed
  from a b c show ?thesis by blast
qed

section \<open>Properties of \<^verbatim>\<open>set\<close>\<close>

lemma remaining_none:
  "set (map fst kwargs) \<subseteq> {''label'', ''directory'', ''txt'', ''command''} \<Longrightarrow>
     delitem (delitem (delitem (delitem (delitem kwargs ''label'') ''directory'') ''txt'')
       ''atoms'') ''command'' = []"
  by (induction kwargs) (auto simp: delitem_def)

lemma remaining_some:
  "k \<in> set (map fst kwargs) \<Longrightarrow> k \<notin> {''label'', ''directory'', ''txt'', ''atoms'', ''command''} \<Longrightarrow>
     delitem (delitem (delitem (delitem (delitem kwargs ''label'') ''directory'') ''txt'')
       ''atoms'') ''command'' \<noteq> []"
  by (induction kwargs) (auto simp: delitem_def)

lemma no_atoms_key:
  "set (map fst kwargs) \<subseteq> {''label'', ''directory'', ''txt'', ''command''} \<Longrightarrow>
     map_of (delitem (delitem (delitem kwargs ''label'') ''directory'') ''txt'') ''atoms'' = None"
  by (induction kwargs) (auto simp: delitem_def)

lemma vasp_set_calculator_keywords:
  assumes keys: "set (map fst kwargs) \<subseteq> {''label'', ''directory'', ''txt'', ''command''}"
    and label: "\<And>v t. results (snd (label_setter x v t)) = results t"
    and cset: "\<And>t. calculator_set x [] t = (Inr [], t)"
  shows "results (snd (vasp_set x s kwargs)) = results s"
proof -
  define first where "first = (case map_of kwargs ''label'' of
              None \<Rightarrow> (Inr (), s)
            | Some v \<Rightarrow> label_setter x v s)"
  have r1: "results (snd first) = results s"
    using label by (simp add: first_def split: option.splits)
  show ?thesis
  proof (cases first)
    case (Pair o1 s1)
    with r1 have s1: "results s1 = results s" by simp
    show ?thesis
    proof (cases o1)
      case (Inl e)
      with Pair s1 show ?thesis
        by (simp add: vasp_set_def first_def [symmetric])
    next
      case (Inr u)
      with Pair s1 show ?thesis
        by (simp add: vasp_set_def first_def [symmetric] Let_def remaining_none [OF keys]
            no_atoms_key [OF keys] cset split: option.splits)
    qed
  qed
qed

lemma vasp_set_input_keyword:
  assumes key: "k \<in> set (map fst kwargs)"
      "k \<notin> {''label'', ''directory'', ''txt'', ''atoms'', ''command''}"
    and ok: "fst (vasp_set x s kwargs) = Inr ()"
  shows "results (snd (vasp_set x s kwargs)) = []"
proof -
  from ok have "vasp_set x s kwargs = (Inr (), snd (vasp_set x s kwargs))"
    by (metis prod.collapse)
  then show ?thesis
    unfolding vasp_set_def Let_def
    by (auto simp: remaining_some [OF key] dest!: sbind_Inr)
qed

text \<open>
  Claim C9. When the keywords passed to \<^verbatim>\<open>set\<close> are among \<^verbatim>\<open>label\<close>,
  \<^verbatim>\<open>directory\<close>, \<^verbatim>\<open>txt\<close> and \<^verbatim>\<open>command\<close>, the Result Mapping after the call is the
  one before it (the setter of \<^verbatim>\<open>label\<close> and \<^verbatim>\<open>Calculator.set\<close> without keywords, both
  of the base class, are taken to leave it alone). When some keyword is none of these
  and not \<^verbatim>\<open>atoms\<close>, and the call returns, the Result Mapping is empty after it,
  whatever the values passed and stored.
\<close>

theorem set_clears_results_on_input_keywords:
  "(set (map fst kwargs) \<subseteq> {''label'', ''directory'', ''txt'', ''command''}
      \<and> (\<forall>v t. results (snd (label_setter x v t)) = results t)
      \<and> (\<forall>t. calculator_set x [] t = (Inr [], t)) \<longrightarrow>
      results (snd (vasp_set x s kwargs)) = results s)
   \<and> (k \<in> set (map fst kwargs)
      \<and> k \<notin> {''label'', ''directory'', ''txt'', ''atoms'', ''command''}
      \<and> fst (vasp_set x s kwargs) = Inr () \<longrightarrow>
      results (snd (vasp_set x s kwargs)) = [])"
proof (intro conjI impI)
  assume h: "set (map fst kwargs) \<subseteq> {''label'', ''directory'', ''txt'', ''command''}
      \<and> (\<forall>v t. results (snd (label_setter x v t)) = results t)
      \<and> (\<forall>t. calculator_set x [] t = (Inr [], t))"
  then have keys: "set (map fst kwargs) \<subseteq> {''label'', ''directory'', ''txt'', ''command''}"
    and label: "\<And>v t. results (snd (label_setter x v t)) = results t"
    and cset: "\<And>t. calculator_set x [] t = (Inr [], t)"
    by simp_all
  from vasp_set_calculator_keywords [OF keys label cset]
  show "results (snd (vasp_set x s kwargs)) = results s" .
next
  assume h: "k \<in> set (map fst kwargs)
      \<and> k \<notin> {''label'', ''directory'', ''txt'', ''atoms'', ''command''}
      \<and> fst (vasp_set x s kwargs) = Inr ()"
  from h have key1: "k \<in> set (map fst kwargs)" by (rule conjunct1)
  from h have key2: "k \<notin> {''label'', ''directory'', ''txt'', ''atoms'', ''command''}"
    by (rule conjunct2 [THEN conjunct1])
  from h have ok: "fst (vasp_set x s kwargs) = Inr ()"
    by (rule conjunct2 [THEN conjunct2])
  note key = key1 key2
  from vasp_set_input_keyword [OF key ok]
  show "results (snd (vasp_set x s kwargs)) = []" .
qed

theorem set_clears_results_on_input_keywords_witness:
  "results (snd (vasp_set example_ase (example_calc\<lparr>results := [(''energy'', PFloat (- 10))]\<rparr>)
       [(''label'', PStr ''run''), (''directory'', PStr ''work''), (''txt'', PStr ''-''),
        (''command'', PStr ''vasp_gam'')])) = [(''energy'', PFloat (- 10))]
   \<and> getitem (float_params (example_calc\<lparr>results := [(''energy'', PFloat (- 10))]\<rparr>)) ''encut''
       = Inr (PFloat 400)
   \<and> results (snd (vasp_set example_ase (example_calc\<lparr>results := [(''energy'', PFloat (- 10))]\<rparr>)
       [(''encut'', PFloat 400)])) = []"
proof -
  let ?s = "example_calc\<lparr>results := [(''energy'', PFloat (- 10))]\<rparr>"
  let ?kw = "[(''label'', PStr ''run''), (''directory'', PStr ''work''), (''txt'', PStr ''-''),
        (''command'', PStr ''vasp_gam'')]"
  have a: "results (snd (vasp_set example_ase ?s ?kw)) = [(''energy'', PFloat (- 10))]"
    using set_clears_results_on_input_keywords
        [where x = example_ase and s = ?s and kwargs = ?kw and k = "''label''"]
    by (simp add: example_ase_def)
  have ok: "fst (vasp_set example_ase ?s [(''encut'', PFloat 400)]) = Inr ()"
    by (simp add: vasp_set_def example_ase_def delitem_def)
  have b: "results (snd (vasp_set example_ase ?s [(''encut'', PFloat 400)])) = []"
    using set_clears_results_on_input_keywords
        [where x = example_ase and s = ?s and kwargs = "[(''encut'', PFloat 400)]"
           and k = "''encut''"] ok
    by simp
  have c: "getitem (float_params ?s) ''encut'' = Inr (PFloat 400)"
    by (simp add: example_calc_def getitem_def)
  from a b c show ?thesis by blast
qed

section \<open>Properties of \<^verbatim>\<open>calculate\<close>\<close>

lemma set_atoms_keeps_empty:
  "results s = [] \<Longrightarrow> results (snd (set_atoms x s a)) = []"
proof (cases a)
  case None
  then show ?thesis by (simp add: set_atoms_def clear_results_def)
next
  case (Some r)
  assume e: "results s = []"
  have st: "check_state x s r default_tol = (fst (check_state x s r default_tol), s)"
    using check_state_state [of x s r default_tol] by (metis prod.collapse)
  show ?thesis
  proof (cases "fst (check_state x s r default_tol)")
    case (Inl err)
    with st have "check_state x s r default_tol = (Inl err, s)" by simp
    with Some e show ?thesis by (simp add: set_atoms_def)
  next
    case (Inr cs)
    with st have "check_state x s r default_tol = (Inr cs, s)" by simp
    with Some e show ?thesis
      by (simp add: set_atoms_def copy_atoms_def clear_results_def)
  qed
qed

lemma write_input_results:
  assumes "\<And>a t. results (snd (generate_initialize x a t)) = results t"
    and "\<And>a t. results (snd (generate_write_input x a t)) = results t"
  shows "results (snd (write_input x s)) = results s"
proof (cases "atoms s")
  case None
  then show ?thesis by (simp add: write_input_def)
next
  case (Some r)
  obtain o1 s1 where i: "generate_initialize x (objects s ! r) s = (o1, s1)"
    by (cases "generate_initialize x (objects s ! r) s")
  with assms(1) [of "objects s ! r" s] have s1: "results s1 = results s" by simp
  show ?thesis
  proof (cases o1)
    case (Inl e)
    with Some i s1 show ?thesis by (simp add: write_input_def)
  next
    case (Inr u)
    with Some i s1 assms(2) [of "objects s ! r" s1] show ?thesis
      by (simp add: write_input_def)
  qed
qed

text \<open>
  Claim C2. Take a call of \<^verbatim>\<open>calculate\<close> that reaches the program: the structure
  passes \<^verbatim>\<open>check_atoms\<close>, its copy is assigned, a command is resolved, the input is
  written and the output stream is found. When the program exits with a status other
  than zero, the call raises \<^verbatim>\<open>CalculationFailed\<close> with the message made of the name
  \<^verbatim>\<open>vasp\<close>, the working directory and the status, and the Result Mapping of the state
  it leaves is empty: \<^verbatim>\<open>clear_results\<close> ran before, and nothing since has filled it
  (\<^verbatim>\<open>initialize\<close> and \<^verbatim>\<open>write_input\<close> of \<^verbatim>\<open>GenerateVaspInput\<close> are taken to leave
  it alone).
\<close>

theorem calculate_failed_run:
  "check_atoms x s (Some r) = Inr ()
   \<and> set_atoms x (snd (copy_atoms (clear_results s) r))
        (Some (fst (copy_atoms (clear_results s) r))) = (Inr (), sa)
   \<and> make_command environ exe (prefix sa) (command sa) = Inr cmd
   \<and> write_input x sa = (Inr (), sb)
   \<and> txt_outstream x sb = Inr out
   \<and> run_process x cmd out (directory sb) = Inr code \<and> code \<noteq> 0
   \<and> (\<forall>a t. results (snd (generate_initialize x a t)) = results t)
   \<and> (\<forall>a t. results (snd (generate_write_input x a t)) = results t)
   \<longrightarrow>
     calculate x environ exe wd s (Some r)
       = (Inl (CalculationFailed
            (''vasp in '' @ directory sb @ '' returned an error: '' @ show_int code)), sb)
     \<and> results sb = []"
proof (intro impI)
  assume h: "check_atoms x s (Some r) = Inr ()
   \<and> set_atoms x (snd (copy_atoms (clear_results s) r))
        (Some (fst (copy_atoms (clear_results s) r))) = (Inr (), sa)
   \<and> make_command environ exe (prefix sa) (command sa) = Inr cmd
   \<and> write_input x sa = (Inr (), sb)
   \<and> txt_outstream x sb = Inr out
   \<and> run_process x cmd out (directory sb) = Inr code \<and> code \<noteq> 0
   \<and> (\<forall>a t. results (snd (generate_initialize x a t)) = results t)
   \<and> (\<forall>a t. results (snd (generate_write_input x a t)) = results t)"
  then have run: "calculate x environ exe wd s (Some r)
       = (Inl (CalculationFailed
            (''vasp in '' @ directory sb @ '' returned an error: '' @ show_int code)), sb)"
    by (simp add: calculate_def lift_def failed_msg_def split_beta)
  have "results (snd (copy_atoms (clear_results s) r)) = []"
    by (simp add: copy_atoms_def clear_results_def)
  from set_atoms_keeps_empty [OF this, of x "Some (fst (copy_atoms (clear_results s) r))"] h
  have "results sa = []" by simp
  moreover from h write_input_results [of x sa] have "results sb = results sa"
    by simp
  ultimately show "calculate x environ exe wd s (Some r)
       = (Inl (CalculationFailed
            (''vasp in '' @ directory sb @ '' returned an error: '' @ show_int code)), sb)
     \<and> results sb = []"
    using run by simp
qed

theorem calculate_failed_run_witness:
  "fst (calculate example_ase Map.empty ''python3'' \<lparr>sortfile = None, outcar = None\<rparr>
      (example_spin_calc\<lparr>results := [(''energy'', PFloat (- 10))], command := Some ''vasp_std''\<rparr>)
      (Some 0))
     = Inl (CalculationFailed ''vasp in . returned an error: 137'')
   \<and> results (snd (calculate example_ase Map.empty ''python3'' \<lparr>sortfile = None, outcar = None\<rparr>
      (example_spin_calc\<lparr>results := [(''energy'', PFloat (- 10))], command := Some ''vasp_std''\<rparr>)
      (Some 0))) = []"
proof -
  let ?s = "example_spin_calc\<lparr>results := [(''energy'', PFloat (- 10))],
                              command := Some ''vasp_std''\<rparr>"
  let ?s1 = "snd (copy_atoms (clear_results ?s) 0)"
  let ?s2 = "snd (set_atoms example_ase ?s1 (Some (fst (copy_atoms (clear_results ?s) 0))))"
  let ?s3 = "snd (write_input example_ase ?s2)"
  have c: "check_atoms example_ase ?s (Some 0) = Inr ()"
    by (simp add: check_atoms_def example_ase_def calc_eval)
  have a: "set_atoms example_ase ?s1 (Some (fst (copy_atoms (clear_results ?s) 0))) = (Inr (), ?s2)"
    by (simp add: set_atoms_def check_state_def copy_atoms_def clear_results_def
        example_ase_def calc_eval)
  have s2: "command ?s2 = Some ''vasp_std''" "atoms ?s2 = Some 2"
    by (simp_all add: set_atoms_def check_state_def copy_atoms_def clear_results_def
        example_ase_def calc_eval)
  have m: "make_command Map.empty ''python3'' (prefix ?s2) (command ?s2) = Inr ''vasp_std''"
    by (simp add: make_command_def s2)
  have gi: "generate_initialize example_ase a t = (Inr (), t)" for a t
    by (simp add: example_ase_def)
  have gw: "generate_write_input example_ase a t = (Inr (), t)" for a t
    by (simp add: example_ase_def)
  have s3: "?s3 = ?s2"
    by (simp add: write_input_def s2 gi gw)
  have w: "write_input example_ase ?s2 = (Inr (), ?s3)"
    by (simp add: write_input_def s2 gi gw)
  have d: "directory ?s2 = ''.''" "txt_attr ?s2 = PStr ''vasp.out''"
    by (simp_all add: set_atoms_def check_state_def copy_atoms_def clear_results_def
        example_ase_def calc_eval)
  have t: "txt_outstream example_ase ?s3 = Inr (To_file ''vasp.out'')"
    by (simp add: s3 txt_outstream_def indir_def d)
  have r: "run_process example_ase ''vasp_std'' (To_file ''vasp.out'') (directory ?s3) = Inr 137"
    by (simp add: example_ase_def)
  have n: "show_int 137 = ''137''"
    by (simp add: show_int_def show_nat.simps)
  from calculate_failed_run
      [where x = example_ase and s = ?s and r = 0 and sa = ?s2 and environ = Map.empty
         and exe = "''python3''" and cmd = "''vasp_std''" and sb = ?s3
         and out = "To_file ''vasp.out''" and code = 137
         and wd = "\<lparr>sortfile = None, outcar = None\<rparr>"]
    c a m w t r gi gw
  have "calculate example_ase Map.empty ''python3'' \<lparr>sortfile = None, outcar = None\<rparr> ?s (Some 0)
       = (Inl (CalculationFailed
            (''vasp in '' @ directory ?s3 @ '' returned an error: '' @ show_int 137)), ?s3)
     \<and> results ?s3 = []"
    by simp
  then show ?thesis
    by (simp add: n s3 d)
qed

section \<open>Properties of the change detector\<close>

lemma py_eq_refl: "py_eq v v"
proof (induction v)
  case (PList xs)
  then show ?case by (simp add: list_all2_same)
qed simp_all

lemma compare_dict_same:
  assumes "distinct (map fst d)"
  shows "compare_dict d d"
proof -
  have "case map_of d (fst kv) of None \<Rightarrow> False | Some w \<Rightarrow> py_eq (snd kv) w"
    if "kv \<in> set d" for kv
  proof -
    from that have "(fst kv, snd kv) \<in> set d" by simp
    with assms have "map_of d (fst kv) = Some (snd kv)"
      by (rule map_of_is_SomeI)
    then show ?thesis by (simp add: py_eq_refl)
  qed
  then show ?thesis
    by (simp add: compare_dict_def list_all_iff)
qed

lemma param_changes_snapshot:
  assumes "params_ok s"
  shows "param_changes s (current_params s) = Inr []"
  using assms
  by (simp add: params_ok_def current_params_def getattr_params_def compare_dict_same)

lemma not_exceeds_same: "0 \<le> tol \<Longrightarrow> \<not> exceeds tol xs xs"
  by (auto simp: exceeds_def list_ex_iff in_set_zip)

lemma compare_same: "0 \<le> tol \<Longrightarrow> compare_atoms_spec (Some a) a tol = []"
  by (simp add: compare_atoms_spec_def not_exceeds_same)

lemma coordinate_in_zip:
  "map length xs = map length ys \<Longrightarrow> i < length xs \<Longrightarrow> j < length (xs ! i) \<Longrightarrow>
     (xs ! i ! j, ys ! i ! j) \<in> set (zip (concat xs) (concat ys))"
proof (induction xs arbitrary: ys i)
  case Nil
  then show ?case by simp
next
  case (Cons x xs)
  then obtain y ys' where ys: "ys = y # ys'" and len: "length x = length y"
    and rest: "map length xs = map length ys'"
    by (cases ys) auto
  show ?case
  proof (cases i)
    case 0
    with Cons.prems len have "(x ! j, y ! j) \<in> set (zip x y)"
      by (auto simp: in_set_zip)
    with 0 ys len show ?thesis by (simp add: zip_append)
  next
    case (Suc k)
    with Cons.prems have "k < length xs" "j < length (xs ! k)" by simp_all
    from Cons.IH [OF rest this] Suc ys len show ?thesis by (simp add: zip_append)
  qed
qed

lemma exceeds_coordinate:
  assumes "i < length xs" "j < length (xs ! i)" "\<bar>xs ! i ! j - ys ! i ! j\<bar> > tol"
  shows "exceeds tol xs ys"
proof (cases "map length xs = map length ys")
  case False
  then show ?thesis by (simp add: exceeds_def)
next
  case True
  from coordinate_in_zip [OF True assms(1,2)] assms(3)
  have "\<exists>ab\<in>set (zip (concat xs) (concat ys)). \<bar>fst ab - snd ab\<bar> > tol"
    by (intro bexI [of _ "(xs ! i ! j, ys ! i ! j)"]) simp_all
  then show ?thesis
    by (simp add: exceeds_def list_ex_iff)
qed

lemma check_state_fst:
  "fst (check_state x s r tol) =
     ebind (param_changes s (param_state s))
       (\<lambda>cs. Inr (base_check_state x (map_option (\<lambda>q. objects s ! q) (atoms s)) (objects s ! r) tol @ cs))"
  by (simp add: check_state_def Let_def)

text \<open>
  Claim C5. \<^verbatim>\<open>check_state\<close> returns the state it was given. With the structural
  comparison of the specification for the base class: when the passed structure equals
  the stored one and the snapshot equals the current parameters, the call reports no
  change, and so does a second call on the state that the first one returns; when some
  coordinate of the passed structure differs from the stored one by more than the
  tolerance, every report contains \<^verbatim>\<open>positions\<close>.
\<close>

theorem check_state_pure_comparison:
  "snd (check_state x s r tol) = s
   \<and> (base_check_state x = compare_atoms_spec \<and> atoms s = Some q
      \<and> objects s ! q = objects s ! r \<and> param_state s = current_params s \<and> params_ok s
      \<and> 0 \<le> tol \<longrightarrow>
      fst (check_state x s r tol) = Inr []
      \<and> fst (check_state x (snd (check_state x s r tol)) r tol) = Inr [])
   \<and> (base_check_state x = compare_atoms_spec \<and> atoms s = Some q
      \<and> i < length (positions (objects s ! q)) \<and> j < length (positions (objects s ! q) ! i)
      \<and> \<bar>positions (objects s ! q) ! i ! j - positions (objects s ! r) ! i ! j\<bar> > tol
      \<and> fst (check_state x s r tol) = Inr cs \<longrightarrow>
      ''positions'' \<in> set cs)"
proof (intro conjI impI)
  show "snd (check_state x s r tol) = s"
    by (rule check_state_state)
next
  assume h: "base_check_state x = compare_atoms_spec \<and> atoms s = Some q
      \<and> objects s ! q = objects s ! r \<and> param_state s = current_params s \<and> params_ok s
      \<and> 0 \<le> tol"
  then have same: "fst (check_state x s r tol) = Inr []"
    by (simp add: check_state_fst param_changes_snapshot compare_same)
  then show "fst (check_state x s r tol) = Inr []" .
  from same show "fst (check_state x (snd (check_state x s r tol)) r tol) = Inr []"
    by (simp add: check_state_state)
next
  assume h: "base_check_state x = compare_atoms_spec \<and> atoms s = Some q
      \<and> i < length (positions (objects s ! q)) \<and> j < length (positions (objects s ! q) ! i)
      \<and> \<bar>positions (objects s ! q) ! i ! j - positions (objects s ! r) ! i ! j\<bar> > tol
      \<and> fst (check_state x s r tol) = Inr cs"
  then have "exceeds tol (positions (objects s ! q)) (positions (objects s ! r))"
    by (intro exceeds_coordinate [of i _ j]) simp_all
  with h show "''positions'' \<in> set cs"
    by (auto simp: check_state_fst compare_atoms_spec_def dest!: ebind_Inr)
qed

theorem check_state_pure_comparison_witness:
  "snd (check_state example_comparing_ase example_checked_calc 0 default_tol) = example_checked_calc
   \<and> fst (check_state example_comparing_ase example_checked_calc 0 default_tol) = Inr []
   \<and> fst (check_state example_comparing_ase
        (snd (check_state example_comparing_ase example_checked_calc 0 default_tol)) 0 default_tol)
      = Inr []
   \<and> fst (check_state example_comparing_ase example_checked_calc 1 default_tol)
      = Inr [''positions'']"
proof -
  let ?x = example_comparing_ase
  let ?s = example_checked_calc
  have base: "base_check_state ?x = compare_atoms_spec"
    by (simp add: example_comparing_ase_def)
  have at: "atoms ?s = Some 0"
    by (simp add: example_checked_calc_def store_param_state_def example_spin_calc_def)
  have obj: "objects ?s = [example_atoms, example_moved_atoms]"
    by (simp add: example_checked_calc_def store_param_state_def example_spin_calc_def)
  have snap: "param_state ?s = current_params ?s"
    by (simp add: example_checked_calc_def store_param_state_def current_params_def)
  have ok: "params_ok ?s"
    by (simp add: params_ok_def current_params_def example_checked_calc_def
        store_param_state_def example_spin_calc_def example_calc_def)
  have tol: "0 \<le> default_tol"
    by (simp add: default_tol_def)
  have moved: "fst (check_state ?x ?s 1 default_tol) = Inr [''positions'']"
    by (simp add: check_state_fst base at obj snap param_changes_snapshot [OF ok]
        compare_atoms_spec_def exceeds_def example_atoms_def example_moved_atoms_def
        default_tol_def)
  have far: "\<bar>positions (objects ?s ! 0) ! 0 ! 1 - positions (objects ?s ! 1) ! 0 ! 1\<bar>
      > default_tol"
    by (simp add: obj example_atoms_def example_moved_atoms_def default_tol_def)
  note T = check_state_pure_comparison
      [where x = ?x and s = ?s and r = 0 and tol = default_tol and q = 0 and i = 0 and j = 1
         and cs = "[]"]
  note U = check_state_pure_comparison
      [where x = ?x and s = ?s and r = 1 and tol = default_tol and q = 0 and i = 0 and j = 1
         and cs = "[''positions'']"]
  from U base at far moved have "''positions'' \<in> set [''positions'']"
    by (simp add: obj example_atoms_def)
  with T base at snap ok tol moved show ?thesis
    by simp
qed

end
